theory Spec2Isabelle
  imports Complex_Main "HOL-Library.AList"
begin

section \<open>Python values\<close>

text \<open>
  The analyzer reads JSON objects through \<^verbatim>\<open>d.get(key, default)\<close>. A JSON object with a fixed
  set of possible keys is a record whose fields are options: \<open>None\<close> is an absent key.
  Python's unbounded integers are \<open>int\<close>. Python's floats are idealised as exact rationals
  (\<open>rat\<close>): the weights 0.3 and 0.4 are the fractions 3/10 and 4/10, and sums are exact.
\<close>

definition py_get :: "'a option \<Rightarrow> 'a \<Rightarrow> 'a" where
  "py_get field dflt = (case field of None \<Rightarrow> dflt | Some v \<Rightarrow> v)"

datatype py_error = ZeroDivisionError

text \<open>True division \<^verbatim>\<open>a / b\<close> of two integers raises on a zero divisor.\<close>

definition py_truediv :: "int \<Rightarrow> int \<Rightarrow> py_error + rat" where
  "py_truediv a b = (if b = 0 then Inl ZeroDivisionError else Inr (of_int a / of_int b))"

text \<open>\<^verbatim>\<open>round(x, 1)\<close> on an exact number: the nearest multiple of 1/10, ties to the even one.\<close>

definition py_round1 :: "rat \<Rightarrow> rat" where
  "py_round1 x =
     (let y = x * 10; f = \<lfloor>y\<rfloor>; d = y - of_int f
      in of_int (if d < 1 / 2 then f else if 1 / 2 < d then f + 1
                 else if even f then f else f + 1) / 10)"

section \<open>Rush detection data: max levels per Town Hall\<close>

text \<open>
  The three module-level dictionaries, name to (Town Hall level to max level), as association
  lists in the order of the source. No name and no level is listed twice.
\<close>

definition HERO_MAX_LEVELS :: "(string \<times> (int \<times> int) list) list" where
  "HERO_MAX_LEVELS =
    [(''Barbarian King'', [(7, 5), (8, 10), (9, 30), (10, 40), (11, 50), (12, 65), (13, 75), (14, 85), (15, 90), (16, 95), (17, 100), (18, 105)]),
     (''Archer Queen'', [(8, 10), (9, 30), (10, 40), (11, 50), (12, 65), (13, 75), (14, 85), (15, 90), (16, 95), (17, 100), (18, 105)]),
     (''Grand Warden'', [(11, 20), (12, 40), (13, 50), (14, 55), (15, 65), (16, 70), (17, 75), (18, 80)]),
     (''Royal Champion'', [(13, 25), (14, 30), (15, 40), (16, 45), (17, 50), (18, 55)]),
     (''Minion Prince'', [(9, 10), (10, 20), (11, 30), (12, 40), (13, 50), (14, 60), (15, 70), (16, 80), (17, 90), (18, 95)])]"

definition TROOP_MAX_LEVELS :: "(string \<times> (int \<times> int) list) list" where
  "TROOP_MAX_LEVELS =
    [(''Barbarian'', [(1, 1), (2, 1), (3, 2), (4, 2), (5, 3), (6, 4), (7, 4), (8, 5), (9, 6), (10, 7), (11, 8), (12, 9), (13, 10), (14, 11), (15, 11), (16, 12), (17, 12)]),
     (''Archer'', [(1, 1), (2, 1), (3, 2), (4, 2), (5, 3), (6, 4), (7, 4), (8, 5), (9, 6), (10, 7), (11, 8), (12, 9), (13, 10), (14, 11), (15, 11), (16, 12), (17, 12)]),
     (''Giant'', [(1, 1), (2, 1), (3, 2), (4, 2), (5, 3), (6, 4), (7, 5), (8, 6), (9, 7), (10, 8), (11, 9), (12, 10), (13, 10), (14, 11), (15, 11), (16, 12), (17, 12)]),
     (''Balloon'', [(4, 2), (5, 3), (6, 4), (7, 5), (8, 6), (9, 6), (10, 7), (11, 8), (12, 9), (13, 10), (14, 10), (15, 10), (16, 11), (17, 11)]),
     (''Wizard'', [(5, 3), (6, 4), (7, 4), (8, 5), (9, 6), (10, 7), (11, 9), (12, 10), (13, 10), (14, 11), (15, 11), (16, 12), (17, 12)]),
     (''Healer'', [(4, 1), (5, 2), (6, 3), (7, 3), (8, 4), (9, 4), (10, 5), (11, 5), (12, 6), (13, 7), (14, 8), (15, 8), (16, 9), (17, 9)]),
     (''Dragon'', [(7, 2), (8, 3), (9, 4), (10, 5), (11, 6), (12, 7), (13, 8), (14, 9), (15, 10), (16, 11), (17, 12)]),
     (''P.E.K.K.A'', [(8, 3), (9, 4), (10, 5), (11, 6), (12, 7), (13, 8), (14, 9), (15, 10), (16, 10), (17, 11)]),
     (''Golem'', [(8, 2), (9, 4), (10, 5), (11, 6), (12, 7), (13, 9), (14, 10), (15, 11), (16, 12), (17, 13)]),
     (''Witch'', [(9, 2), (10, 3), (11, 4), (12, 5), (13, 5), (14, 6), (15, 6), (16, 7), (17, 7)]),
     (''Lava Hound'', [(9, 2), (10, 3), (11, 4), (12, 5), (13, 6), (14, 6), (15, 6), (16, 7), (17, 7)]),
     (''Bowler'', [(10, 2), (11, 3), (12, 4), (13, 5), (14, 6), (15, 6), (16, 7), (17, 7)]),
     (''Miner'', [(10, 3), (11, 5), (12, 6), (13, 7), (14, 8), (15, 8), (16, 9), (17, 9)]),
     (''Electro Dragon'', [(11, 2), (12, 3), (13, 4), (14, 5), (15, 5), (16, 6), (17, 6)]),
     (''Yeti'', [(12, 2), (13, 3), (14, 4), (15, 4), (16, 5), (17, 5)]),
     (''Dragon Rider'', [(14, 2), (15, 3), (16, 3), (17, 4)]),
     (''Electro Titan'', [(15, 2), (16, 3), (17, 3)]),
     (''Root Rider'', [(16, 2), (17, 3)])]"

definition SPELL_MAX_LEVELS :: "(string \<times> (int \<times> int) list) list" where
  "SPELL_MAX_LEVELS =
    [(''Lightning Spell'', [(5, 4), (6, 4), (7, 4), (8, 5), (9, 6), (10, 7), (11, 8), (12, 9), (13, 9), (14, 10), (15, 10), (16, 11), (17, 11)]),
     (''Healing Spell'', [(6, 3), (7, 4), (8, 5), (9, 6), (10, 7), (11, 7), (12, 8), (13, 8), (14, 9), (15, 9), (16, 10), (17, 10)]),
     (''Rage Spell'', [(7, 4), (8, 5), (9, 5), (10, 5), (11, 6), (12, 6), (13, 6), (14, 6), (15, 6), (16, 6), (17, 6)]),
     (''Jump Spell'', [(9, 2), (10, 3), (11, 3), (12, 4), (13, 4), (14, 5), (15, 5), (16, 5), (17, 5)]),
     (''Freeze Spell'', [(9, 1), (10, 5), (11, 6), (12, 7), (13, 7), (14, 7), (15, 7), (16, 8), (17, 8)]),
     (''Poison Spell'', [(8, 2), (9, 3), (10, 4), (11, 5), (12, 6), (13, 7), (14, 8), (15, 9), (16, 10), (17, 10)]),
     (''Earthquake Spell'', [(8, 2), (9, 3), (10, 4), (11, 5), (12, 5), (13, 5), (14, 5), (15, 5), (16, 5), (17, 5)]),
     (''Haste Spell'', [(9, 2), (10, 4), (11, 5), (12, 5), (13, 5), (14, 5), (15, 5), (16, 5), (17, 5)]),
     (''Clone Spell'', [(10, 3), (11, 5), (12, 6), (13, 7), (14, 7), (15, 8), (16, 8), (17, 8)]),
     (''Invisibility Spell'', [(11, 2), (12, 3), (13, 4), (14, 4), (15, 4), (16, 4), (17, 4)]),
     (''Recall Spell'', [(13, 2), (14, 3), (15, 4), (16, 5), (17, 5)]),
     (''Bat Spell'', [(10, 3), (11, 4), (12, 5), (13, 5), (14, 5), (15, 5), (16, 5), (17, 5)]),
     (''Overgrowth Spell'', [(15, 2), (16, 3), (17, 3)])]"

section \<open>Rush detection\<close>

definition get_max_level_for_th :: "string \<Rightarrow> int \<Rightarrow> string \<Rightarrow> int option" where
  "get_max_level_for_th item_name th_level item_type =
     (if item_type = ''hero'' then
        map_of (py_get (map_of HERO_MAX_LEVELS item_name) []) th_level
      else if item_type = ''troop'' then
        map_of (py_get (map_of TROOP_MAX_LEVELS item_name) []) th_level
      else if item_type = ''spell'' then
        map_of (py_get (map_of SPELL_MAX_LEVELS item_name) []) th_level
      else None)"

text \<open>An entry of the player's \<^verbatim>\<open>heroes\<close>, \<^verbatim>\<open>troops\<close> or \<^verbatim>\<open>spells\<close> list.\<close>

record asset =
  name :: "string option"
  level :: "int option"
  village :: "string option"

record player =
  townHallLevel :: "int option"
  heroes :: "asset list option"
  troops :: "asset list option"
  spells :: "asset list option"

text \<open>
  An entry of \<^verbatim>\<open>rushed_heroes\<close>, \<^verbatim>\<open>rushed_troops\<close> or \<^verbatim>\<open>rushed_spells\<close>; its key
  \<^verbatim>\<open>name\<close> is the field \<open>item\<close>.
\<close>

record deficit =
  item :: string
  current :: int
  target :: int
  missing :: int

text \<open>
  The status strings of the source, without their leading symbol:
  \<^verbatim>\<open>New Account\<close>, \<^verbatim>\<open>Not Rushed\<close>, \<^verbatim>\<open>Maxed\<close>, \<^verbatim>\<open>Slightly Behind\<close>, \<^verbatim>\<open>Moderately Rushed\<close>,
  \<^verbatim>\<open>Rushed\<close>, \<^verbatim>\<open>Severely Rushed\<close>, \<^verbatim>\<open>Severely Rushed (Heroes)\<close>.
\<close>

datatype status =
  New_Account | Not_Rushed | Maxed | Slightly_Behind | Moderately_Rushed | Rushed
  | Severely_Rushed | Severely_Rushed_Heroes

text \<open>
  The dictionary \<^verbatim>\<open>rush_data\<close>. The dictionary returned for Town Hall 1 and 2 has no keys
  \<^verbatim>\<open>hero_score\<close>, \<^verbatim>\<open>troop_score\<close>, \<^verbatim>\<open>spell_score\<close> and \<^verbatim>\<open>total_missing_hero_levels\<close>; the
  record carries 0 in these four fields there.
\<close>

record rush_data =
  is_rushed :: bool
  rush_score :: rat
  rush_percentage :: rat
  rushed_heroes :: "deficit list"
  rushed_troops :: "deficit list"
  rushed_spells :: "deficit list"
  hero_score :: int
  troop_score :: rat
  spell_score :: rat
  total_missing_hero_levels :: int
  status :: status

text \<open>
  The bodies of the three loops. Each works on the dictionary and on the two running totals
  of its category (\<^verbatim>\<open>total_hero_possible\<close>, \<^verbatim>\<open>total_hero_current\<close> and so on).
\<close>

definition check_hero :: "int \<Rightarrow> asset \<Rightarrow> rush_data \<times> int \<times> int \<Rightarrow> rush_data \<times> int \<times> int" where
  "check_hero previous_th hero acc =
     (case acc of (rush_data, total_hero_possible, total_hero_current) \<Rightarrow>
        let hero_name = py_get (name hero) '''';
            hero_level = py_get (level hero) 0;
            village = py_get (village hero) ''''
        in if village \<noteq> ''home'' then acc
           else (case get_max_level_for_th hero_name previous_th ''hero'' of
                   None \<Rightarrow> acc
                 | Some max_at_prev \<Rightarrow>
                     if max_at_prev > 0 then
                       ((if hero_level < max_at_prev then
                           let missing_levels = max_at_prev - hero_level
                           in rush_data
                                \<lparr>rushed_heroes := rushed_heroes rush_data @
                                   [\<lparr>item = hero_name, current = hero_level,
                                     target = max_at_prev, missing = missing_levels\<rparr>],
                                 hero_score := hero_score rush_data + missing_levels,
                                 total_missing_hero_levels :=
                                   total_missing_hero_levels rush_data + missing_levels\<rparr>
                         else rush_data),
                        total_hero_possible + max_at_prev,
                        total_hero_current + min hero_level max_at_prev)
                     else acc))"

definition check_troop :: "int \<Rightarrow> asset \<Rightarrow> rush_data \<times> int \<times> int \<Rightarrow> rush_data \<times> int \<times> int" where
  "check_troop previous_th troop acc =
     (case acc of (rush_data, total_troop_possible, total_troop_current) \<Rightarrow>
        let troop_name = py_get (name troop) '''';
            troop_level = py_get (level troop) 0;
            village = py_get (village troop) ''''
        in if village \<noteq> ''home'' then acc
           else (case get_max_level_for_th troop_name previous_th ''troop'' of
                   None \<Rightarrow> acc
                 | Some max_at_prev \<Rightarrow>
                     if max_at_prev > 0 then
                       ((if troop_level < max_at_prev then
                           let missing_levels = max_at_prev - troop_level
                           in rush_data
                                \<lparr>rushed_troops := rushed_troops rush_data @
                                   [\<lparr>item = troop_name, current = troop_level,
                                     target = max_at_prev, missing = missing_levels\<rparr>],
                                 troop_score :=
                                   troop_score rush_data + of_int missing_levels * (3 / 10)\<rparr>
                         else rush_data),
                        total_troop_possible + max_at_prev,
                        total_troop_current + min troop_level max_at_prev)
                     else acc))"

definition check_spell :: "int \<Rightarrow> asset \<Rightarrow> rush_data \<times> int \<times> int \<Rightarrow> rush_data \<times> int \<times> int" where
  "check_spell previous_th spell acc =
     (case acc of (rush_data, total_spell_possible, total_spell_current) \<Rightarrow>
        let spell_name = py_get (name spell) '''';
            spell_level = py_get (level spell) 0;
            village = py_get (village spell) ''''
        in if village \<noteq> ''home'' then acc
           else (case get_max_level_for_th spell_name previous_th ''spell'' of
                   None \<Rightarrow> acc
                 | Some max_at_prev \<Rightarrow>
                     if max_at_prev > 0 then
                       ((if spell_level < max_at_prev then
                           let missing_levels = max_at_prev - spell_level
                           in rush_data
                                \<lparr>rushed_spells := rushed_spells rush_data @
                                   [\<lparr>item = spell_name, current = spell_level,
                                     target = max_at_prev, missing = missing_levels\<rparr>],
                                 spell_score :=
                                   spell_score rush_data + of_int missing_levels * (4 / 10)\<rparr>
                         else rush_data),
                        total_spell_possible + max_at_prev,
                        total_spell_current + min spell_level max_at_prev)
                     else acc))"

text \<open>
  Sections 1 to 4 of \<^verbatim>\<open>generate_rush_report\<close> up to the two grand totals: the three loops
  and the final score. The result is the dictionary with \<^verbatim>\<open>total_possible\<close> and
  \<^verbatim>\<open>total_current\<close>.
\<close>

definition calculate_scores :: "player \<Rightarrow> int \<Rightarrow> rush_data \<times> int \<times> int" where
  "calculate_scores player previous_th =
     (let rush_data =
            \<lparr>is_rushed = False, rush_score = 0, rush_percentage = 0,
             rushed_heroes = [], rushed_troops = [], rushed_spells = [],
             hero_score = 0, troop_score = 0, spell_score = 0,
             total_missing_hero_levels = 0, status = Not_Rushed\<rparr>;
          (rush_data, total_hero_possible, total_hero_current) =
            fold (check_hero previous_th) (py_get (heroes player) []) (rush_data, 0, 0);
          (rush_data, total_troop_possible, total_troop_current) =
            fold (check_troop previous_th) (py_get (troops player) []) (rush_data, 0, 0);
          (rush_data, total_spell_possible, total_spell_current) =
            fold (check_spell previous_th) (py_get (spells player) []) (rush_data, 0, 0);
          rush_data = rush_data
            \<lparr>rush_score :=
               of_int (hero_score rush_data) + troop_score rush_data + spell_score rush_data\<rparr>;
          total_possible = total_hero_possible + total_troop_possible + total_spell_possible;
          total_current = total_hero_current + total_troop_current + total_spell_current
      in (rush_data, total_possible, total_current))"

text \<open>The overall rush percentage, computed only behind the guard \<^verbatim>\<open>total_possible > 0\<close>.\<close>

definition calculate_rush_percentage :: "rush_data \<Rightarrow> int \<Rightarrow> int \<Rightarrow> py_error + rush_data" where
  "calculate_rush_percentage rush_data total_possible total_current =
     (if total_possible > 0 then
        (case py_truediv total_current total_possible of
           Inl e \<Rightarrow> Inl e
         | Inr q \<Rightarrow>
             let completion_pct = q * 100
             in Inr (rush_data\<lparr>rush_percentage := py_round1 (100 - completion_pct)\<rparr>))
      else Inr rush_data)"

text \<open>Section 5, the chain of thresholds on the score.\<close>

definition determine_status :: "rush_data \<Rightarrow> rush_data" where
  "determine_status rush_data =
     (let score = rush_score rush_data
      in if score \<le> 3 then rush_data\<lparr>status := Maxed, is_rushed := False\<rparr>
         else if score \<le> 10 then rush_data\<lparr>status := Slightly_Behind, is_rushed := False\<rparr>
         else if score \<le> 25 then rush_data\<lparr>status := Moderately_Rushed, is_rushed := True\<rparr>
         else if score \<le> 50 then rush_data\<lparr>status := Rushed, is_rushed := True\<rparr>
         else rush_data\<lparr>status := Severely_Rushed, is_rushed := True\<rparr>)"

text \<open>The extra penalty for very low heroes, applied after the thresholds.\<close>

definition extra_penalty :: "rush_data \<Rightarrow> rush_data" where
  "extra_penalty rush_data =
     (let hero_missing = total_missing_hero_levels rush_data
      in if hero_missing > 20
         then rush_data\<lparr>status := Severely_Rushed_Heroes, is_rushed := True\<rparr>
         else rush_data)"

definition generate_rush_report :: "player \<Rightarrow> py_error + rush_data" where
  "generate_rush_report player =
     (let th_level = py_get (townHallLevel player) 1
      in if th_level \<le> 2 then
           Inr \<lparr>is_rushed = False, rush_score = 0, rush_percentage = 0,
                rushed_heroes = [], rushed_troops = [], rushed_spells = [],
                hero_score = 0, troop_score = 0, spell_score = 0,
                total_missing_hero_levels = 0, status = New_Account\<rparr>
         else
           let previous_th = th_level - 1;
               (rush_data, total_possible, total_current) = calculate_scores player previous_th
           in (case calculate_rush_percentage rush_data total_possible total_current of
                 Inl e \<Rightarrow> Inl e
               | Inr rush_data \<Rightarrow> Inr (extra_penalty (determine_status rush_data))))"

section \<open>Data persistence: the historical statistics\<close>

text \<open>
  An attack as \<^verbatim>\<open>update_player_historical_stats\<close> reads it from
  \<^verbatim>\<open>attack_data['attacks']\<close>, every key through \<^verbatim>\<open>get\<close> with a default.
\<close>

record attack =
  stars :: "int option"
  destruction :: "rat option"
  defender_th :: "int option"
  defender_pos :: "int option"
  hit_type :: "string option"

record attack_data =
  attacks :: "attack list option"

text \<open>
  An entry of \<^verbatim>\<open>attacks_history\<close>. Its keys \<^verbatim>\<open>stars\<close>, \<^verbatim>\<open>destruction\<close>, \<^verbatim>\<open>defender_th\<close>
  and \<^verbatim>\<open>hit_type\<close> are the fields with the prefix \<open>rec\<close>.
\<close>

record attack_record =
  war_id :: string
  war_type :: string
  date :: string
  rec_stars :: int
  rec_destruction :: rat
  rec_defender_th :: int
  attacker_th :: int
  rec_hit_type :: string

text \<open>
  A player's entry of \<^verbatim>\<open>historical_data["players"]\<close>; its keys \<^verbatim>\<open>name\<close> and
  \<^verbatim>\<open>cwl_seasons\<close> are the fields \<open>player_name\<close> and \<open>player_cwl_seasons\<close>.
\<close>

record player_history =
  player_name :: string
  tag :: string
  current_th :: int
  total_attacks :: int
  total_stars :: int
  total_destruction :: rat
  three_stars :: int
  two_stars :: int
  one_star :: int
  zero_stars :: int
  wars_participated :: int
  player_cwl_seasons :: int
  attacks_history :: "attack_record list"
  war_ids :: "string list"

text \<open>
  An entry of \<^verbatim>\<open>historical_data["cwl_seasons"]\<close>; the keys \<^verbatim>\<open>season\<close>, \<^verbatim>\<open>wars_analyzed\<close>,
  \<^verbatim>\<open>total_attacks\<close> and \<^verbatim>\<open>total_stars\<close> are the fields with the prefix \<open>season\<close>.
\<close>

record cwl_season =
  season_name :: string
  season_wars_analyzed :: int
  season_total_attacks :: int
  season_total_stars :: int
  recorded_date :: string
  complete :: bool

text \<open>
  The persisted document. The keys \<^verbatim>\<open>wars\<close> and \<^verbatim>\<open>war_log\<close> are created empty and never
  written by the analyzer.
\<close>

record historical_data =
  clan_tag :: string
  last_updated :: "string option"
  players :: "string \<rightharpoonup> player_history"
  cwl_seasons :: "string \<rightharpoonup> cwl_season"
  wars :: "unit list"
  war_log :: "unit list"

definition CLAN_TAG :: string where
  "CLAN_TAG = ''#2J28LL2VU''"

definition create_empty_data_structure :: historical_data where
  "create_empty_data_structure =
     \<lparr>clan_tag = CLAN_TAG, last_updated = None, players = Map.empty, cwl_seasons = Map.empty,
      wars = [], war_log = []\<rparr>"

text \<open>
  The body of the loop over the attacks. \<open>now\<close> is the string that
  \<^verbatim>\<open>datetime.now().isoformat()\<close> returns.
\<close>

definition record_attack ::
  "string \<Rightarrow> string \<Rightarrow> string \<Rightarrow> int \<Rightarrow> attack \<Rightarrow> player_history \<Rightarrow> player_history" where
  "record_attack war_id' war_type' now th_level attack player =
     (let attack_record =
            \<lparr>war_id = war_id', war_type = war_type', date = now,
             rec_stars = py_get (stars attack) 0,
             rec_destruction = py_get (destruction attack) 0,
             rec_defender_th = py_get (defender_th attack) 0,
             attacker_th = th_level,
             rec_hit_type = py_get (hit_type attack) ''unknown''\<rparr>;
          player = player\<lparr>attacks_history := attacks_history player @ [attack_record]\<rparr>;
          player = player\<lparr>total_attacks := total_attacks player + 1\<rparr>;
          player = player\<lparr>total_stars := total_stars player + py_get (stars attack) 0\<rparr>;
          player = player
            \<lparr>total_destruction := total_destruction player + py_get (destruction attack) 0\<rparr>;
          stars = py_get (stars attack) 0
      in if stars = 3 then player\<lparr>three_stars := three_stars player + 1\<rparr>
         else if stars = 2 then player\<lparr>two_stars := two_stars player + 1\<rparr>
         else if stars = 1 then player\<lparr>one_star := one_star player + 1\<rparr>
         else player\<lparr>zero_stars := zero_stars player + 1\<rparr>)"

text \<open>
  The function mutates \<^verbatim>\<open>historical_data\<close> in place and returns nothing; the model returns
  the document after the call.
\<close>

definition update_player_historical_stats ::
  "historical_data \<Rightarrow> string \<Rightarrow> string \<Rightarrow> int \<Rightarrow> attack_data \<Rightarrow> string \<Rightarrow> string \<Rightarrow> string
     \<Rightarrow> historical_data" where
  "update_player_historical_stats historical_data player_tag player_name' th_level
       attack_data war_type' war_id' now =
     (let player =
            (case players historical_data player_tag of
               None \<Rightarrow>
                 \<lparr>player_name = player_name', tag = player_tag, current_th = th_level,
                  total_attacks = 0, total_stars = 0, total_destruction = 0,
                  three_stars = 0, two_stars = 0, one_star = 0, zero_stars = 0,
                  wars_participated = 0, player_cwl_seasons = 0,
                  attacks_history = [], war_ids = []\<rparr>
             | Some player \<Rightarrow> player);
          player = player\<lparr>player_name := player_name'\<rparr>;
          player = player\<lparr>current_th := max (current_th player) th_level\<rparr>
      in if war_id' \<in> set (war_ids player) then
           historical_data\<lparr>players := (players historical_data)(player_tag \<mapsto> player)\<rparr>
         else
           let player = player\<lparr>war_ids := war_ids player @ [war_id']\<rparr>;
               player = player\<lparr>wars_participated := wars_participated player + 1\<rparr>;
               player = fold (record_attack war_id' war_type' now th_level)
                          (py_get (attacks attack_data) []) player
           in historical_data\<lparr>players := (players historical_data)(player_tag \<mapsto> player)\<rparr>)"

section \<open>War attack analysis\<close>

text \<open>
  The war as the API returns it. An attack of a member has the keys \<^verbatim>\<open>defenderTag\<close>,
  \<^verbatim>\<open>stars\<close> and \<^verbatim>\<open>destructionPercentage\<close>; a member has \<^verbatim>\<open>name\<close>, \<^verbatim>\<open>tag\<close>,
  \<^verbatim>\<open>townhallLevel\<close>, \<^verbatim>\<open>mapPosition\<close> and \<^verbatim>\<open>attacks\<close>; a side has \<^verbatim>\<open>tag\<close> and
  \<^verbatim>\<open>members\<close>. Keys that are only printed are left out.
\<close>

record api_attack =
  defenderTag :: "string option"
  attack_stars :: "int option"
  destructionPercentage :: "rat option"

record war_member =
  member_name :: "string option"
  member_tag :: "string option"
  townhallLevel :: "int option"
  mapPosition :: "int option"
  member_attacks :: "api_attack list option"

record war_side =
  side_tag :: "string option"
  members :: "war_member list option"

record war =
  clan :: "war_side option"
  opponent :: "war_side option"
  state :: "string option"

text \<open>The empty dictionary \<^verbatim>\<open>{}\<close> that \<^verbatim>\<open>get\<close> falls back to.\<close>

definition empty_side :: war_side where
  "empty_side = \<lparr>side_tag = None, members = None\<rparr>"

definition empty_member :: war_member where
  "empty_member =
     \<lparr>member_name = None, member_tag = None, townhallLevel = None, mapPosition = None,
      member_attacks = None\<rparr>"

text \<open>
  A value of \<^verbatim>\<open>player_stats\<close>. The keys \<^verbatim>\<open>name\<close>, \<^verbatim>\<open>tag\<close>, \<^verbatim>\<open>attacks\<close>, \<^verbatim>\<open>total_stars\<close>,
  \<^verbatim>\<open>total_destruction\<close> and the four star counters are the fields with the prefix \<open>stats\<close>.
  The hit types are the strings of the source without their leading symbol:
  \<^verbatim>\<open>UP\<close>, \<^verbatim>\<open>DOWN\<close>, \<^verbatim>\<open>SAME\<close>.
\<close>

record war_stats =
  stats_name :: string
  stats_tag :: string
  th :: int
  stats_attacks :: "attack list"
  stats_total_stars :: int
  stats_total_destruction :: rat
  new_stars :: int
  attacks_used :: int
  missed_attacks :: int
  stats_three_stars :: int
  stats_two_stars :: int
  stats_one_star :: int
  stats_zero_stars :: int
  hit_up :: int
  hit_same :: int
  hit_down :: int

text \<open>
  The body of the loop over a member's attacks, on the member's entry
  \<^verbatim>\<open>player_stats[tag]\<close>. The list \<^verbatim>\<open>all_attacks\<close> is only printed and is left out.
\<close>

definition analyze_attack ::
  "(string option \<rightharpoonup> war_member) \<Rightarrow> int \<Rightarrow> api_attack \<Rightarrow> war_stats \<Rightarrow> war_stats" where
  "analyze_attack opponent_lookup th' attack entry =
     (let defender_tag = py_get (defenderTag attack) '''';
          defender = py_get (opponent_lookup (Some defender_tag)) empty_member;
          defender_th' = py_get (townhallLevel defender) 0;
          defender_pos' = py_get (mapPosition defender) 0;
          stars' = py_get (attack_stars attack) 0;
          destruction' = py_get (destructionPercentage attack) 0;
          new_stars' = stars';
          (hit_type', entry) =
            (if defender_th' > th' then (''UP'', entry\<lparr>hit_up := hit_up entry + 1\<rparr>)
             else if defender_th' < th' then (''DOWN'', entry\<lparr>hit_down := hit_down entry + 1\<rparr>)
             else (''SAME'', entry\<lparr>hit_same := hit_same entry + 1\<rparr>));
          entry = entry
            \<lparr>stats_attacks := stats_attacks entry @
               [\<lparr>stars = Some stars', destruction = Some destruction',
                 defender_th = Some defender_th', defender_pos = Some defender_pos',
                 hit_type = Some hit_type'\<rparr>]\<rparr>;
          entry = entry\<lparr>stats_total_stars := stats_total_stars entry + stars'\<rparr>;
          entry = entry
            \<lparr>stats_total_destruction := stats_total_destruction entry + destruction'\<rparr>;
          entry = entry\<lparr>attacks_used := attacks_used entry + 1\<rparr>
      in if stars' = 3 then entry\<lparr>stats_three_stars := stats_three_stars entry + 1\<rparr>
         else if stars' = 2 then entry\<lparr>stats_two_stars := stats_two_stars entry + 1\<rparr>
         else if stars' = 1 then entry\<lparr>stats_one_star := stats_one_star entry + 1\<rparr>
         else entry\<lparr>stats_zero_stars := stats_zero_stars entry + 1\<rparr>)"

text \<open>
  The body of the loop over the sorted members. \<^verbatim>\<open>player_stats\<close> is a dictionary in
  insertion order: an association list, where a new key goes to the end and a known key
  keeps its place.
\<close>

definition analyze_member ::
  "(string option \<rightharpoonup> war_member) \<Rightarrow> war_member \<Rightarrow> (string \<times> war_stats) list
     \<Rightarrow> (string \<times> war_stats) list" where
  "analyze_member opponent_lookup member player_stats =
     (let name' = py_get (member_name member) ''Unknown'';
          tag' = py_get (member_tag member) '''';
          th' = py_get (townhallLevel member) 0;
          attacks' = py_get (member_attacks member) [];
          player_stats =
            (if map_of player_stats tag' = None then
               AList.update tag'
                 \<lparr>stats_name = name', stats_tag = tag', th = th', stats_attacks = [],
                  stats_total_stars = 0, stats_total_destruction = 0, new_stars = 0,
                  attacks_used = 0, missed_attacks = 0,
                  stats_three_stars = 0, stats_two_stars = 0, stats_one_star = 0,
                  stats_zero_stars = 0, hit_up = 0, hit_same = 0, hit_down = 0\<rparr>
                 player_stats
             else player_stats)
      in if attacks' \<noteq> [] then
           AList.map_entry tag' (fold (analyze_attack opponent_lookup th') attacks') player_stats
         else
           AList.map_entry tag' (\<lambda>entry. entry\<lparr>missed_attacks := 2\<rparr>) player_stats)"

text \<open>
  \<^verbatim>\<open>sorted\<close> is stable, and so is \<open>sort_key\<close>. In the dictionary comprehension of
  \<^verbatim>\<open>opponent_lookup\<close> a later member with the same tag replaces an earlier one.
\<close>

definition analyze_war_attacks :: "war \<Rightarrow> (string \<times> war_stats) list" where
  "analyze_war_attacks war' =
     (let clan_members = py_get (members (py_get (clan war') empty_side)) [];
          opponent_members = py_get (members (py_get (opponent war') empty_side)) []
      in if clan_members = [] then []
         else
           let opponent_lookup = map_of (rev (map (\<lambda>m. (member_tag m, m)) opponent_members));
               members_sorted = sort_key (\<lambda>x. py_get (mapPosition x) 0) clan_members
           in fold (analyze_member opponent_lookup) members_sorted [])"

text \<open>
  The list \<^verbatim>\<open>missed\<close> that \<^verbatim>\<open>analyze_war_attacks\<close> computes from \<^verbatim>\<open>player_stats\<close> for its
  printed summary of the players who missed attacks.
\<close>

definition missed :: "(string \<times> war_stats) list \<Rightarrow> (string \<times> int) list" where
  "missed player_stats =
     map (\<lambda>(tag', p). (stats_name p, 2 - attacks_used p))
       (filter (\<lambda>(tag', p). attacks_used p < 2) player_stats)"

section \<open>Clan War League analysis\<close>

record cwl_round =
  warTags :: "string list option"

record cwl_group =
  group_state :: "string option"
  season :: "string option"
  rounds :: "cwl_round list option"

text \<open>
  A value of the \<^verbatim>\<open>defaultdict\<close> \<^verbatim>\<open>all_player_stats\<close>; every key of the source has the
  prefix \<open>agg\<close> here.
\<close>

record cwl_player_stats =
  agg_name :: string
  agg_tag :: string
  agg_th :: int
  agg_total_stars :: int
  agg_total_destruction :: rat
  agg_attacks_used :: int
  agg_three_stars :: int
  agg_two_stars :: int
  agg_one_star :: int
  agg_zero_stars :: int
  agg_wars_participated :: int
  agg_hit_up :: int
  agg_hit_same :: int
  agg_hit_down :: int

definition default_player_stats :: cwl_player_stats where
  "default_player_stats =
     \<lparr>agg_name = '''', agg_tag = '''', agg_th = 0, agg_total_stars = 0,
      agg_total_destruction = 0, agg_attacks_used = 0, agg_three_stars = 0,
      agg_two_stars = 0, agg_one_star = 0, agg_zero_stars = 0, agg_wars_participated = 0,
      agg_hit_up = 0, agg_hit_same = 0, agg_hit_down = 0\<rparr>"

text \<open>The decimal digits of a number, as the f-string formats \<^verbatim>\<open>round_num\<close>.\<close>

fun str_nat :: "nat \<Rightarrow> string" where
  "str_nat n =
     (if n < 10 then [char_of (48 + n)] else str_nat (n div 10) @ [char_of (48 + n mod 10)])"

declare str_nat.simps [simp del]

text \<open>
  The body of the loop over \<^verbatim>\<open>war_stats.items()\<close>: the season's running aggregate and the
  historical record of one player. The dictionary \<^verbatim>\<open>stats\<close> is passed as \<^verbatim>\<open>attack_data\<close>,
  of which only the key \<^verbatim>\<open>attacks\<close> is read.
\<close>

definition aggregate_player ::
  "string \<Rightarrow> string \<Rightarrow> string \<Rightarrow> string \<times> war_stats
     \<Rightarrow> historical_data \<times> (string \<times> cwl_player_stats) list
     \<Rightarrow> historical_data \<times> (string \<times> cwl_player_stats) list" where
  "aggregate_player season' war_id' now kv acc =
     (case (kv, acc) of ((tag', stats), (historical_data, all_player_stats)) \<Rightarrow>
        let agg = py_get (map_of all_player_stats tag') default_player_stats;
            agg = agg
              \<lparr>agg_name := stats_name stats,
               agg_tag := stats_tag stats,
               agg_th := max (agg_th agg) (th stats),
               agg_total_stars := agg_total_stars agg + stats_total_stars stats,
               agg_total_destruction := agg_total_destruction agg + stats_total_destruction stats,
               agg_attacks_used := agg_attacks_used agg + attacks_used stats,
               agg_three_stars := agg_three_stars agg + stats_three_stars stats,
               agg_two_stars := agg_two_stars agg + stats_two_stars stats,
               agg_one_star := agg_one_star agg + stats_one_star stats,
               agg_zero_stars := agg_zero_stars agg + stats_zero_stars stats,
               agg_hit_up := agg_hit_up agg + hit_up stats,
               agg_hit_same := agg_hit_same agg + hit_same stats,
               agg_hit_down := agg_hit_down agg + hit_down stats\<rparr>;
            agg = (if attacks_used stats > 0
                   then agg\<lparr>agg_wars_participated := agg_wars_participated agg + 1\<rparr>
                   else agg);
            all_player_stats = AList.update tag' agg all_player_stats;
            historical_data =
              update_player_historical_stats historical_data tag' (stats_name stats) (th stats)
                \<lparr>attacks = Some (stats_attacks stats)\<rparr> (''CWL_'' @ season') war_id' now
        in (historical_data, all_player_stats))"

text \<open>
  The body of the loop over the war tags of a round. The state of the loops is the document,
  \<^verbatim>\<open>all_player_stats\<close>, \<^verbatim>\<open>wars_analyzed\<close> and the local variable \<^verbatim>\<open>state\<close>, which the body
  assigns. \<open>get_cwl_war\<close> is the answer of the API to the request for a war (\<open>None\<close> when
  the request fails).
\<close>

definition analyze_cwl_war ::
  "(string \<Rightarrow> war option) \<Rightarrow> string \<Rightarrow> string \<Rightarrow> string \<Rightarrow> nat \<Rightarrow> string
     \<Rightarrow> historical_data \<times> (string \<times> cwl_player_stats) list \<times> int \<times> string
     \<Rightarrow> historical_data \<times> (string \<times> cwl_player_stats) list \<times> int \<times> string" where
  "analyze_cwl_war get_cwl_war our_clan_tag season' now round_num war_tag acc =
     (case acc of (historical_data, all_player_stats, wars_analyzed, state') \<Rightarrow>
        if war_tag = ''#0'' then acc
        else
          (case get_cwl_war war_tag of
             None \<Rightarrow> acc
           | Some war' \<Rightarrow>
               let clan_data = py_get (clan war') empty_side;
                   opponent_data = py_get (opponent war') empty_side;
                   sides =
                     (if side_tag clan_data = Some our_clan_tag
                      then Some (clan_data, opponent_data)
                      else if side_tag opponent_data = Some our_clan_tag
                      then Some (opponent_data, clan_data)
                      else None)
               in (case sides of
                     None \<Rightarrow> acc
                   | Some (our_clan, opponent') \<Rightarrow>
                       let wars_analyzed = wars_analyzed + 1;
                           state' = py_get (state war') ''unknown'';
                           war_id' = ''cwl_'' @ season' @ ''_round'' @ str_nat round_num
                                       @ ''_'' @ war_tag
                       in if state' \<in> {''inWar'', ''warEnded''} then
                            let war_stats =
                                  analyze_war_attacks
                                    \<lparr>clan = Some our_clan, opponent = Some opponent',
                                     state = None\<rparr>;
                                (historical_data, all_player_stats) =
                                  fold (aggregate_player season' war_id' now) war_stats
                                    (historical_data, all_player_stats)
                            in (historical_data, all_player_stats, wars_analyzed, state')
                          else (historical_data, all_player_stats, wars_analyzed, state'))))"

text \<open>
  \<open>get_cwl_group\<close> is the answer of the API to the request for the league group. The function
  returns the document.
\<close>

definition analyze_cwl ::
  "(string \<Rightarrow> cwl_group option) \<Rightarrow> (string \<Rightarrow> war option) \<Rightarrow> string \<Rightarrow> string
     \<Rightarrow> historical_data \<Rightarrow> historical_data" where
  "analyze_cwl get_cwl_group get_cwl_war now clan_tag' historical_data =
     (case get_cwl_group clan_tag' of
        None \<Rightarrow> historical_data
      | Some cwl_group \<Rightarrow>
          let state' = py_get (group_state cwl_group) ''unknown'';
              season' = py_get (season cwl_group) ''N/A'';
              season_key = ''cwl_'' @ season';
              rounds' = py_get (rounds cwl_group) [];
              all_player_stats = [];
              wars_analyzed = 0;
              our_clan_tag = clan_tag';
              (historical_data, all_player_stats, wars_analyzed, state') =
                fold (\<lambda>(round_num, round_data).
                        fold (analyze_cwl_war get_cwl_war our_clan_tag season' now round_num)
                          (py_get (warTags round_data) []))
                  (zip [1 ..< Suc (length rounds')] rounds')
                  (historical_data, all_player_stats, wars_analyzed, state')
          in if wars_analyzed > 0 then
               historical_data
                 \<lparr>cwl_seasons := (cwl_seasons historical_data)
                    (season_key \<mapsto>
                       \<lparr>season_name = season',
                        season_wars_analyzed = wars_analyzed,
                        season_total_attacks =
                          sum_list (map (\<lambda>(t, p). agg_attacks_used p) all_player_stats),
                        season_total_stars =
                          sum_list (map (\<lambda>(t, p). agg_total_stars p) all_player_stats),
                        recorded_date = now,
                        complete = (state' = ''ended'')\<rparr>)\<rparr>
             else historical_data)"

section \<open>The quantities of the specification\<close>

text \<open>
  The target of an asset of a category at a tier, as the specification words it: the entry
  of the category's reference table at the asset's name and the reference tier, tier - 1,
  for an asset of the home village; no target for any other asset.
\<close>

definition spec_target :: "string \<Rightarrow> int \<Rightarrow> asset \<Rightarrow> int option" where
  "spec_target category tier a =
     (if py_get (village a) '''' = ''home''
      then get_max_level_for_th (py_get (name a) '''') (tier - 1) category
      else None)"

text \<open>The missing levels of an asset: nothing without a target, nothing at or above it.\<close>

definition spec_missing :: "string \<Rightarrow> int \<Rightarrow> asset \<Rightarrow> int" where
  "spec_missing category tier a =
     (case spec_target category tier a of
        None \<Rightarrow> 0
      | Some t \<Rightarrow> if py_get (level a) 0 < t then t - py_get (level a) 0 else 0)"

definition spec_weight :: "string \<Rightarrow> rat" where
  "spec_weight category =
     (if category = ''hero'' then 1 else if category = ''troop'' then 3 / 10 else 4 / 10)"

definition spec_category_score :: "string \<Rightarrow> int \<Rightarrow> asset list \<Rightarrow> rat" where
  "spec_category_score category tier xs =
     (\<Sum>a\<leftarrow>xs. of_int (spec_missing category tier a) * spec_weight category)"

definition spec_rush_score :: "player \<Rightarrow> rat" where
  "spec_rush_score p =
     (let tier = py_get (townHallLevel p) 1
      in spec_category_score ''hero'' tier (py_get (heroes p) [])
         + spec_category_score ''troop'' tier (py_get (troops p) [])
         + spec_category_score ''spell'' tier (py_get (spells p) []))"

text \<open>The sums of the targets and of the capped levels over the scoreable assets.\<close>

definition spec_possible :: "string \<Rightarrow> int \<Rightarrow> asset list \<Rightarrow> int" where
  "spec_possible category tier xs =
     (\<Sum>a\<leftarrow>xs. case spec_target category tier a of None \<Rightarrow> 0 | Some t \<Rightarrow> t)"

definition spec_current :: "string \<Rightarrow> int \<Rightarrow> asset list \<Rightarrow> int" where
  "spec_current category tier xs =
     (\<Sum>a\<leftarrow>xs. case spec_target category tier a of
                  None \<Rightarrow> 0
                | Some t \<Rightarrow> min (py_get (level a) 0) t)"

definition spec_total_possible :: "player \<Rightarrow> int" where
  "spec_total_possible p =
     (let tier = py_get (townHallLevel p) 1
      in spec_possible ''hero'' tier (py_get (heroes p) [])
         + spec_possible ''troop'' tier (py_get (troops p) [])
         + spec_possible ''spell'' tier (py_get (spells p) []))"

definition spec_total_current :: "player \<Rightarrow> int" where
  "spec_total_current p =
     (let tier = py_get (townHallLevel p) 1
      in spec_current ''hero'' tier (py_get (heroes p) [])
         + spec_current ''troop'' tier (py_get (troops p) [])
         + spec_current ''spell'' tier (py_get (spells p) []))"

text \<open>The status and the flag that the table of thresholds gives to a score.\<close>

definition spec_classify :: "rat \<Rightarrow> status \<times> bool" where
  "spec_classify score =
     (if score \<le> 3 then (Maxed, False)
      else if score \<le> 10 then (Slightly_Behind, False)
      else if score \<le> 25 then (Moderately_Rushed, True)
      else if score \<le> 50 then (Rushed, True)
      else (Severely_Rushed, True))"

text \<open>
  The counters of a historical record agree: as many attacks as star outcomes and as
  entries of the history.
\<close>

definition counters_agree :: "player_history \<Rightarrow> bool" where
  "counters_agree p \<longleftrightarrow>
     total_attacks p = three_stars p + two_stars p + one_star p + zero_stars p
     \<and> total_attacks p = int (length (attacks_history p))"

text \<open>
  A run of calls of \<^verbatim>\<open>update_player_historical_stats\<close> on a document, each call given by
  its arguments: player tag, player name, Town Hall level, attack data, war type, war id
  and the time of the call.
\<close>

type_synonym update_call = "string \<times> string \<times> int \<times> attack_data \<times> string \<times> string \<times> string"

definition run_updates :: "update_call list \<Rightarrow> historical_data \<Rightarrow> historical_data" where
  "run_updates calls historical_data =
     fold (\<lambda>(player_tag, player_name', th_level, attack_data, war_type', war_id', now) hd.
             update_player_historical_stats hd player_tag player_name' th_level attack_data
               war_type' war_id' now)
       calls historical_data"

section \<open>Example players\<close>

text \<open>
  A Town Hall 10 player whose Barbarian King is 21 levels below the Town Hall 9 maximum, with
  one home troop 3 levels behind and one troop of the other village; a Town Hall 2 player; and
  a Town Hall 3 player whose only asset has no entry at Town Hall 2.
\<close>

definition example_player :: player where
  "example_player =
     \<lparr>townHallLevel = Some 10,
      heroes = Some [\<lparr>name = Some ''Barbarian King'', level = Some 9, village = Some ''home''\<rparr>],
      troops = Some [\<lparr>name = Some ''Barbarian'', level = Some 3, village = Some ''home''\<rparr>,
                     \<lparr>name = Some ''Barbarian'', level = Some 3, village = Some ''builderBase''\<rparr>],
      spells = None\<rparr>"

definition new_player :: player where
  "new_player =
     \<lparr>townHallLevel = Some 2,
      heroes = None,
      troops = Some [\<lparr>name = Some ''Barbarian'', level = Some 1, village = Some ''home''\<rparr>],
      spells = None\<rparr>"


section \<open>Example history\<close>

text \<open>
  One player and three calls: a war with a three-star and a zero-star attack, the same war
  again with another payload, and a second war with an attack of 7 stars (outside 1, 2, 3)
  and a one-star attack. \<open>example_document\<close> is the document after the first call,
  \<open>example_history\<close> the player's record in it, and \<open>example_final_history\<close> the record
  after the three calls.
\<close>

definition example_attack :: "int \<Rightarrow> attack" where
  "example_attack s =
     \<lparr>stars = Some s, destruction = Some 50, defender_th = Some 10, defender_pos = Some 1,
      hit_type = Some ''SAME''\<rparr>"

definition example_document :: historical_data where
  "example_document =
     update_player_historical_stats create_empty_data_structure ''#P1'' ''Ann'' 10
       \<lparr>attacks = Some [example_attack 3, example_attack 0]\<rparr> ''regular_war'' ''W1'' ''t1''"

definition example_history :: player_history where
  "example_history =
     \<lparr>player_name = ''Ann'', tag = ''#P1'', current_th = 10,
      total_attacks = 2, total_stars = 3, total_destruction = 100,
      three_stars = 1, two_stars = 0, one_star = 0, zero_stars = 1,
      wars_participated = 1, player_cwl_seasons = 0,
      attacks_history =
        [\<lparr>war_id = ''W1'', war_type = ''regular_war'', date = ''t1'', rec_stars = 3,
          rec_destruction = 50, rec_defender_th = 10, attacker_th = 10, rec_hit_type = ''SAME''\<rparr>,
         \<lparr>war_id = ''W1'', war_type = ''regular_war'', date = ''t1'', rec_stars = 0,
          rec_destruction = 50, rec_defender_th = 10, attacker_th = 10, rec_hit_type = ''SAME''\<rparr>],
      war_ids = [''W1'']\<rparr>"

definition example_calls :: "update_call list" where
  "example_calls =
     [(''#P1'', ''Ann'', 10, \<lparr>attacks = Some [example_attack 3, example_attack 0]\<rparr>,
       ''regular_war'', ''W1'', ''t1''),
      (''#P1'', ''Ann'', 10, \<lparr>attacks = Some [example_attack 2]\<rparr>,
       ''regular_war'', ''W1'', ''t2''),
      (''#P1'', ''Ann'', 11, \<lparr>attacks = Some [example_attack 7, example_attack 1]\<rparr>,
       ''regular_war'', ''W2'', ''t3'')]"

definition example_final_history :: player_history where
  "example_final_history =
     example_history
       \<lparr>current_th := 11, total_attacks := 4, total_stars := 11, total_destruction := 200,
        one_star := 1, zero_stars := 2, wars_participated := 2,
        attacks_history := attacks_history example_history @
          [\<lparr>war_id = ''W2'', war_type = ''regular_war'', date = ''t3'', rec_stars = 7,
            rec_destruction = 50, rec_defender_th = 10, attacker_th = 11, rec_hit_type = ''SAME''\<rparr>,
           \<lparr>war_id = ''W2'', war_type = ''regular_war'', date = ''t3'', rec_stars = 1,
            rec_destruction = 50, rec_defender_th = 10, attacker_th = 11, rec_hit_type = ''SAME''\<rparr>],
        war_ids := [''W1'', ''W2'']\<rparr>"

section \<open>Example wars\<close>

text \<open>
  A war in progress with a roster of three, given out of map order: Ann used one of her two
  attacks, Bob none, Cy both. And a league group with one scheduled war, in which the clan
  is the second side; the state of the group and the state of the war are parameters.
\<close>

definition example_war :: war where
  "example_war =
     \<lparr>clan = Some
        \<lparr>side_tag = Some ''#CLAN'',
         members = Some
           [\<lparr>member_name = Some ''Cy'', member_tag = Some ''#C'', townhallLevel = Some 11,
             mapPosition = Some 3,
             member_attacks = Some
               [\<lparr>defenderTag = Some ''#X'', attack_stars = Some 3,
                 destructionPercentage = Some 100\<rparr>,
                \<lparr>defenderTag = Some ''#Y'', attack_stars = Some 1,
                 destructionPercentage = Some 40\<rparr>]\<rparr>,
            \<lparr>member_name = Some ''Ann'', member_tag = Some ''#A'', townhallLevel = Some 10,
             mapPosition = Some 1,
             member_attacks = Some
               [\<lparr>defenderTag = Some ''#X'', attack_stars = Some 2,
                 destructionPercentage = Some 80\<rparr>]\<rparr>,
            \<lparr>member_name = Some ''Bob'', member_tag = Some ''#B'', townhallLevel = Some 9,
             mapPosition = Some 2, member_attacks = None\<rparr>]\<rparr>,
      opponent = Some
        \<lparr>side_tag = Some ''#OPP'',
         members = Some
           [\<lparr>member_name = Some ''Xi'', member_tag = Some ''#X'', townhallLevel = Some 10,
             mapPosition = Some 1, member_attacks = None\<rparr>]\<rparr>,
      state = Some ''inWar''\<rparr>"

definition example_group :: "string \<Rightarrow> cwl_group" where
  "example_group s =
     \<lparr>group_state = Some s, season = Some ''2025-01'',
      rounds = Some [\<lparr>warTags = Some [''#0'', ''#W1'']\<rparr>]\<rparr>"

definition example_cwl_war :: "string \<Rightarrow> war" where
  "example_cwl_war s =
     \<lparr>clan = Some \<lparr>side_tag = Some ''#OPP'', members = Some []\<rparr>,
      opponent = Some
        \<lparr>side_tag = Some CLAN_TAG,
         members = Some
           [\<lparr>member_name = Some ''Ann'', member_tag = Some ''#A'', townhallLevel = Some 10,
             mapPosition = Some 1,
             member_attacks = Some
               [\<lparr>defenderTag = Some ''#X'', attack_stars = Some 2,
                 destructionPercentage = Some 80\<rparr>]\<rparr>]\<rparr>,
      state = Some s\<rparr>"

section \<open>Properties of the rush report\<close>

text \<open>
  Every level listed in the three tables is positive, so the test \<^verbatim>\<open>max_at_prev > 0\<close> of the
  loops holds for every asset that has an entry.
\<close>

lemma hero_table_positive: "\<forall>(n, row) \<in> set HERO_MAX_LEVELS. \<forall>(t, v) \<in> set row. 0 < v"
  by (simp add: HERO_MAX_LEVELS_def)

lemma troop_table_positive: "\<forall>(n, row) \<in> set TROOP_MAX_LEVELS. \<forall>(t, v) \<in> set row. 0 < v"
  by (simp add: TROOP_MAX_LEVELS_def)

lemma spell_table_positive: "\<forall>(n, row) \<in> set SPELL_MAX_LEVELS. \<forall>(t, v) \<in> set row. 0 < v"
  by (simp add: SPELL_MAX_LEVELS_def)

lemma table_lookup_positive:
  assumes pos: "\<forall>(n, row) \<in> set table. \<forall>(t, v) \<in> set row. 0 < (v::int)"
    and look: "map_of (py_get (map_of table n) []) t = Some v"
  shows "0 < v"
proof (cases "map_of table n")
  case None
  with look show ?thesis by (simp add: py_get_def)
next
  case (Some row)
  then have "(n, row) \<in> set table" by (rule map_of_SomeD)
  moreover from Some look have "(t, v) \<in> set row"
    by (auto simp: py_get_def dest: map_of_SomeD)
  ultimately show ?thesis using pos by fastforce
qed

lemma get_max_level_positive:
  "get_max_level_for_th n t c = Some v \<Longrightarrow> 0 < v"
  unfolding get_max_level_for_th_def
  by (auto split: if_splits
      intro: table_lookup_positive [OF hero_table_positive]
             table_lookup_positive [OF troop_table_positive]
             table_lookup_positive [OF spell_table_positive])

text \<open>
  One round of each loop adds the missing levels of the asset, with the weight of the
  category, to the category's score, the target to the total of the targets and the capped
  level to the total of the levels, and leaves the scores of the other categories alone.
\<close>

lemma check_hero_fields:
  assumes "check_hero (tier - 1) a (rd, p, c) = (rd', p', c')"
  shows "hero_score rd' = hero_score rd + spec_missing ''hero'' tier a"
    and "total_missing_hero_levels rd' = total_missing_hero_levels rd + spec_missing ''hero'' tier a"
    and "troop_score rd' = troop_score rd" and "spell_score rd' = spell_score rd"
    and "rush_percentage rd' = rush_percentage rd"
    and "p' = p + spec_possible ''hero'' tier [a]"
    and "c' = c + spec_current ''hero'' tier [a]"
  using assms
  by (auto simp: check_hero_def spec_missing_def spec_target_def spec_possible_def
      spec_current_def Let_def split: option.splits if_splits dest: get_max_level_positive)

lemma check_troop_fields:
  assumes "check_troop (tier - 1) a (rd, p, c) = (rd', p', c')"
  shows "troop_score rd' = troop_score rd + of_int (spec_missing ''troop'' tier a) * (3 / 10)"
    and "hero_score rd' = hero_score rd"
    and "total_missing_hero_levels rd' = total_missing_hero_levels rd"
    and "spell_score rd' = spell_score rd"
    and "rush_percentage rd' = rush_percentage rd"
    and "p' = p + spec_possible ''troop'' tier [a]"
    and "c' = c + spec_current ''troop'' tier [a]"
  using assms
  by (auto simp: check_troop_def spec_missing_def spec_target_def spec_possible_def
      spec_current_def Let_def split: option.splits if_splits dest: get_max_level_positive)

lemma check_spell_fields:
  assumes "check_spell (tier - 1) a (rd, p, c) = (rd', p', c')"
  shows "spell_score rd' = spell_score rd + of_int (spec_missing ''spell'' tier a) * (4 / 10)"
    and "hero_score rd' = hero_score rd"
    and "total_missing_hero_levels rd' = total_missing_hero_levels rd"
    and "troop_score rd' = troop_score rd"
    and "rush_percentage rd' = rush_percentage rd"
    and "p' = p + spec_possible ''spell'' tier [a]"
    and "c' = c + spec_current ''spell'' tier [a]"
  using assms
  by (auto simp: check_spell_def spec_missing_def spec_target_def spec_possible_def
      spec_current_def Let_def split: option.splits if_splits dest: get_max_level_positive)

lemma spec_possible_Cons:
  "spec_possible k tier (a # xs) = spec_possible k tier [a] + spec_possible k tier xs"
  by (simp add: spec_possible_def)

lemma spec_current_Cons:
  "spec_current k tier (a # xs) = spec_current k tier [a] + spec_current k tier xs"
  by (simp add: spec_current_def)

text \<open>The three loops, by induction on the list with the accumulator generalised.\<close>

lemma heroes_loop:
  "fold (check_hero (tier - 1)) xs (rd, p, c) = (rd', p', c') \<Longrightarrow>
     hero_score rd' = hero_score rd + (\<Sum>a\<leftarrow>xs. spec_missing ''hero'' tier a)
     \<and> total_missing_hero_levels rd' =
         total_missing_hero_levels rd + (\<Sum>a\<leftarrow>xs. spec_missing ''hero'' tier a)
     \<and> troop_score rd' = troop_score rd \<and> spell_score rd' = spell_score rd
     \<and> rush_percentage rd' = rush_percentage rd
     \<and> p' = p + spec_possible ''hero'' tier xs
     \<and> c' = c + spec_current ''hero'' tier xs"
proof (induction xs arbitrary: rd p c)
  case Nil
  then show ?case by (simp add: spec_possible_def spec_current_def)
next
  case (Cons a xs)
  obtain rd1 p1 c1 where step: "check_hero (tier - 1) a (rd, p, c) = (rd1, p1, c1)"
    by (cases "check_hero (tier - 1) a (rd, p, c)") auto
  with Cons.prems have rest: "fold (check_hero (tier - 1)) xs (rd1, p1, c1) = (rd', p', c')"
    by simp
  show ?case
    using Cons.IH [OF rest] check_hero_fields [OF step]
    by (simp add: spec_possible_Cons [of _ _ a xs] spec_current_Cons [of _ _ a xs])
qed

lemma troops_loop:
  "fold (check_troop (tier - 1)) xs (rd, p, c) = (rd', p', c') \<Longrightarrow>
     troop_score rd' = troop_score rd + spec_category_score ''troop'' tier xs
     \<and> hero_score rd' = hero_score rd
     \<and> total_missing_hero_levels rd' = total_missing_hero_levels rd
     \<and> spell_score rd' = spell_score rd
     \<and> rush_percentage rd' = rush_percentage rd
     \<and> p' = p + spec_possible ''troop'' tier xs
     \<and> c' = c + spec_current ''troop'' tier xs"
proof (induction xs arbitrary: rd p c)
  case Nil
  then show ?case by (simp add: spec_possible_def spec_current_def spec_category_score_def)
next
  case (Cons a xs)
  obtain rd1 p1 c1 where step: "check_troop (tier - 1) a (rd, p, c) = (rd1, p1, c1)"
    by (cases "check_troop (tier - 1) a (rd, p, c)") auto
  with Cons.prems have rest: "fold (check_troop (tier - 1)) xs (rd1, p1, c1) = (rd', p', c')"
    by simp
  show ?case
    using Cons.IH [OF rest] check_troop_fields [OF step]
    by (simp add: spec_possible_Cons [of _ _ a xs] spec_current_Cons [of _ _ a xs]
        spec_category_score_def spec_weight_def)
qed

lemma spells_loop:
  "fold (check_spell (tier - 1)) xs (rd, p, c) = (rd', p', c') \<Longrightarrow>
     spell_score rd' = spell_score rd + spec_category_score ''spell'' tier xs
     \<and> hero_score rd' = hero_score rd
     \<and> total_missing_hero_levels rd' = total_missing_hero_levels rd
     \<and> troop_score rd' = troop_score rd
     \<and> rush_percentage rd' = rush_percentage rd
     \<and> p' = p + spec_possible ''spell'' tier xs
     \<and> c' = c + spec_current ''spell'' tier xs"
proof (induction xs arbitrary: rd p c)
  case Nil
  then show ?case by (simp add: spec_possible_def spec_current_def spec_category_score_def)
next
  case (Cons a xs)
  obtain rd1 p1 c1 where step: "check_spell (tier - 1) a (rd, p, c) = (rd1, p1, c1)"
    by (cases "check_spell (tier - 1) a (rd, p, c)") auto
  with Cons.prems have rest: "fold (check_spell (tier - 1)) xs (rd1, p1, c1) = (rd', p', c')"
    by simp
  show ?case
    using Cons.IH [OF rest] check_spell_fields [OF step]
    by (simp add: spec_possible_Cons [of _ _ a xs] spec_current_Cons [of _ _ a xs]
        spec_category_score_def spec_weight_def)
qed

lemma hero_category_score:
  "spec_category_score ''hero'' tier xs = of_int (\<Sum>a\<leftarrow>xs. spec_missing ''hero'' tier a)"
  by (induction xs) (simp_all add: spec_category_score_def spec_weight_def)

lemma calculate_scores_fields:
  assumes "calculate_scores p (py_get (townHallLevel p) 1 - 1) = (rd, tp, tc)"
  shows "rush_score rd = spec_rush_score p"
    and "of_int (total_missing_hero_levels rd) =
           spec_category_score ''hero'' (py_get (townHallLevel p) 1) (py_get (heroes p) [])"
    and "rush_percentage rd = 0"
    and "tp = spec_total_possible p"
    and "tc = spec_total_current p"
proof -
  let ?tier = "py_get (townHallLevel p) 1"
  let ?init = "\<lparr>is_rushed = False, rush_score = 0, rush_percentage = 0,
             rushed_heroes = [], rushed_troops = [], rushed_spells = [],
             hero_score = 0, troop_score = 0, spell_score = 0,
             total_missing_hero_levels = 0, status = Not_Rushed\<rparr>"
  obtain rd1 hp hc where h: "fold (check_hero (?tier - 1)) (py_get (heroes p) []) (?init, 0, 0) = (rd1, hp, hc)"
    by (metis prod_cases3)
  obtain rd2 tp' tc' where t: "fold (check_troop (?tier - 1)) (py_get (troops p) []) (rd1, 0, 0) = (rd2, tp', tc')"
    by (metis prod_cases3)
  obtain rd3 sp sc where s: "fold (check_spell (?tier - 1)) (py_get (spells p) []) (rd2, 0, 0) = (rd3, sp, sc)"
    by (metis prod_cases3)
  have res: "rd = rd3\<lparr>rush_score := of_int (hero_score rd3) + troop_score rd3 + spell_score rd3\<rparr>"
     "tp = hp + tp' + sp" "tc = hc + tc' + sc"
    using assms h t s by (simp_all add: calculate_scores_def)
  note H = heroes_loop [OF h] and T = troops_loop [OF t] and S = spells_loop [OF s]
  show "rush_score rd = spec_rush_score p"
    using H T S by (simp add: res spec_rush_score_def hero_category_score Let_def)
  show "of_int (total_missing_hero_levels rd) =
           spec_category_score ''hero'' ?tier (py_get (heroes p) [])"
    using H T S by (simp add: res hero_category_score)
  show "rush_percentage rd = 0" using H T S by (simp add: res)
  show "tp = spec_total_possible p" using H T S by (simp add: res spec_total_possible_def Let_def)
  show "tc = spec_total_current p" using H T S by (simp add: res spec_total_current_def Let_def)
qed

text \<open>
  The total of the targets is never negative, so the guard \<^verbatim>\<open>total_possible > 0\<close> fails only
  at 0, and behind it the division has a divisor other than 0.
\<close>

lemma calculate_rush_percentage_result:
  "0 \<le> tp \<Longrightarrow> calculate_rush_percentage rd tp tc =
     Inr (if tp = 0 then rd
          else rd\<lparr>rush_percentage := py_round1 (100 - of_int tc / of_int tp * 100)\<rparr>)"
  by (simp add: calculate_rush_percentage_def py_truediv_def)

lemma spec_possible_nonneg: "0 \<le> spec_possible k tier xs"
  unfolding spec_possible_def
  by (rule sum_list_nonneg)
     (auto simp: spec_target_def less_imp_le split: option.splits if_splits
       dest!: get_max_level_positive)

lemma spec_total_possible_nonneg: "0 \<le> spec_total_possible p"
  by (simp add: spec_total_possible_def Let_def spec_possible_nonneg)

lemma spec_missing_nonneg: "0 \<le> spec_missing k tier a"
  by (simp add: spec_missing_def split: option.splits)

lemma spec_category_score_nonneg: "0 \<le> spec_category_score k tier xs"
  unfolding spec_category_score_def
  by (rule sum_list_nonneg) (auto simp: spec_weight_def spec_missing_nonneg)

text \<open>The report of a player at Town Hall 3 or above, in terms of the quantities above.\<close>

lemma generate_rush_report_unfold:
  assumes "3 \<le> py_get (townHallLevel p) 1"
  obtains rd where
    "generate_rush_report p =
       Inr (extra_penalty (determine_status
         (if spec_total_possible p = 0 then rd
          else rd\<lparr>rush_percentage :=
                 py_round1 (100 - of_int (spec_total_current p) / of_int (spec_total_possible p) * 100)\<rparr>)))"
    "rush_score rd = spec_rush_score p"
    "of_int (total_missing_hero_levels rd) =
       spec_category_score ''hero'' (py_get (townHallLevel p) 1) (py_get (heroes p) [])"
    "rush_percentage rd = 0"
proof -
  obtain rd tp tc where cs: "calculate_scores p (py_get (townHallLevel p) 1 - 1) = (rd, tp, tc)"
    by (metis prod_cases3)
  note F = calculate_scores_fields [OF cs]
  have "generate_rush_report p =
       Inr (extra_penalty (determine_status
         (if spec_total_possible p = 0 then rd
          else rd\<lparr>rush_percentage :=
                 py_round1 (100 - of_int (spec_total_current p) / of_int (spec_total_possible p) * 100)\<rparr>)))"
    using assms cs spec_total_possible_nonneg [of p]
    by (simp add: generate_rush_report_def Let_def F(4,5) calculate_rush_percentage_result)
  then show thesis using F(1,2,3) by (rule that)
qed

lemma rush_score_final [simp]:
  "rush_score (extra_penalty (determine_status rd)) = rush_score rd"
  by (simp add: extra_penalty_def determine_status_def Let_def)

lemma rush_percentage_final [simp]:
  "rush_percentage (extra_penalty (determine_status rd)) = rush_percentage rd"
  by (simp add: extra_penalty_def determine_status_def Let_def)

lemma total_missing_final [simp]:
  "total_missing_hero_levels (extra_penalty (determine_status rd)) = total_missing_hero_levels rd"
  by (simp add: extra_penalty_def determine_status_def Let_def)

lemma determine_status_classify:
  "status (determine_status rd) = fst (spec_classify (rush_score rd))"
  "is_rushed (determine_status rd) = snd (spec_classify (rush_score rd))"
  "rush_score (determine_status rd) = rush_score rd"
  "total_missing_hero_levels (determine_status rd) = total_missing_hero_levels rd"
  by (simp_all add: determine_status_def spec_classify_def Let_def)

lemma example_tier: "py_get (townHallLevel example_player) 1 = 10"
  by (simp add: example_player_def py_get_def)



text \<open>
  Claim C2. For a player at Town Hall 3 or above, the dictionary before the extra penalty,
  \<open>determine_status rd\<close>, carries the status and the flag that the ascending thresholds
  3, 10, 25, 50 give to the score (\<open>spec_classify\<close>), and the score is the reported one.
\<close>

theorem status_from_thresholds:
  assumes "3 \<le> py_get (townHallLevel p) 1"
  shows "\<exists>rd. (case calculate_scores p (py_get (townHallLevel p) 1 - 1) of
                 (rd0, tp, tc) \<Rightarrow> calculate_rush_percentage rd0 tp tc) = Inr rd
              \<and> generate_rush_report p = Inr (extra_penalty (determine_status rd))
              \<and> rush_score (extra_penalty (determine_status rd)) = rush_score rd
              \<and> rush_score (determine_status rd) = rush_score rd
              \<and> (status (determine_status rd), is_rushed (determine_status rd)) =
                   spec_classify (rush_score rd)"
proof -
  obtain rd0 tp tc where cs: "calculate_scores p (py_get (townHallLevel p) 1 - 1) = (rd0, tp, tc)"
    by (metis prod_cases3)
  have "0 \<le> tp"
    using calculate_scores_fields(4) [OF cs] spec_total_possible_nonneg [of p] by simp
  then obtain rd where pct: "calculate_rush_percentage rd0 tp tc = Inr rd"
    by (simp add: calculate_rush_percentage_result)
  have "generate_rush_report p = Inr (extra_penalty (determine_status rd))"
    using assms cs pct by (simp add: generate_rush_report_def Let_def)
  with cs pct show ?thesis
    by (simp add: determine_status_classify)
qed

theorem status_from_thresholds_witness:
  "3 \<le> py_get (townHallLevel example_player) 1
   \<and> (\<exists>rd. (case calculate_scores example_player (py_get (townHallLevel example_player) 1 - 1) of
               (rd0, tp, tc) \<Rightarrow> calculate_rush_percentage rd0 tp tc) = Inr rd
            \<and> generate_rush_report example_player = Inr (extra_penalty (determine_status rd))
            \<and> rush_score rd = 219 / 10
            \<and> status (determine_status rd) = Moderately_Rushed
            \<and> is_rushed (determine_status rd))"
proof -
  have tier: "3 \<le> py_get (townHallLevel example_player) 1"
    by (simp add: example_tier)
  have eval: "rush_score (case (case calculate_scores example_player (py_get (townHallLevel example_player) 1 - 1) of
               (rd0, tp, tc) \<Rightarrow> calculate_rush_percentage rd0 tp tc) of Inr rd \<Rightarrow> rd) = 219 / 10"
    by code_simp
  have cl: "spec_classify (219 / 10) = (Moderately_Rushed, True)"
    by (simp add: spec_classify_def)
  from status_from_thresholds [OF tier] obtain rd where
    rd: "(case calculate_scores example_player (py_get (townHallLevel example_player) 1 - 1) of
               (rd0, tp, tc) \<Rightarrow> calculate_rush_percentage rd0 tp tc) = Inr rd"
      "generate_rush_report example_player = Inr (extra_penalty (determine_status rd))"
      "(status (determine_status rd), is_rushed (determine_status rd)) = spec_classify (rush_score rd)"
    by blast
  from eval rd(1) have "rush_score rd = 219 / 10" by simp
  with rd cl tier show ?thesis by auto
qed

text \<open>
  Claim C3. For a player at Town Hall 3 or above, a report whose total of missing hero levels
  exceeds 20 has the status Severely Rushed (Heroes) and is flagged as rushed, whatever the
  thresholds gave to the blended score; the total is the sum of the missing levels of the
  home heroes.
\<close>

theorem hero_override:
  assumes "3 \<le> py_get (townHallLevel p) 1"
    and "generate_rush_report p = Inr r"
    and "20 < total_missing_hero_levels r"
  shows "status r = Severely_Rushed_Heroes \<and> is_rushed r
         \<and> total_missing_hero_levels r =
             (\<Sum>a\<leftarrow>py_get (heroes p) []. spec_missing ''hero'' (py_get (townHallLevel p) 1) a)"
proof -
  from assms(1) obtain rd where
    rep: "generate_rush_report p =
       Inr (extra_penalty (determine_status
         (if spec_total_possible p = 0 then rd
          else rd\<lparr>rush_percentage :=
                 py_round1 (100 - of_int (spec_total_current p) / of_int (spec_total_possible p) * 100)\<rparr>)))"
    and miss: "of_int (total_missing_hero_levels rd) =
       spec_category_score ''hero'' (py_get (townHallLevel p) 1) (py_get (heroes p) [])"
    by (rule generate_rush_report_unfold)
  let ?rd = "if spec_total_possible p = 0 then rd
          else rd\<lparr>rush_percentage :=
                 py_round1 (100 - of_int (spec_total_current p) / of_int (spec_total_possible p) * 100)\<rparr>"
  from rep assms(2) have r: "r = extra_penalty (determine_status ?rd)" by simp
  have same: "total_missing_hero_levels r = total_missing_hero_levels rd"
    by (simp add: r)
  have "rat_of_int (total_missing_hero_levels r) =
     rat_of_int (\<Sum>a\<leftarrow>py_get (heroes p) []. spec_missing ''hero'' (py_get (townHallLevel p) 1) a)"
    using miss same by (simp add: hero_category_score)
  then have sum: "total_missing_hero_levels r =
     (\<Sum>a\<leftarrow>py_get (heroes p) []. spec_missing ''hero'' (py_get (townHallLevel p) 1) a)"
    by (simp only: of_int_eq_iff)
  have "20 < total_missing_hero_levels (determine_status ?rd)"
    using assms(3) by (simp add: r determine_status_classify(4))
  then have "status r = Severely_Rushed_Heroes \<and> is_rushed r"
    unfolding r by (simp add: extra_penalty_def Let_def)
  with sum show ?thesis by simp
qed

theorem hero_override_witness:
  "3 \<le> py_get (townHallLevel example_player) 1
   \<and> generate_rush_report example_player =
       Inr \<lparr>is_rushed = True, rush_score = 219 / 10, rush_percentage = 667 / 10,
            rushed_heroes = [\<lparr>item = ''Barbarian King'', current = 9, target = 30, missing = 21\<rparr>],
            rushed_troops = [\<lparr>item = ''Barbarian'', current = 3, target = 6, missing = 3\<rparr>],
            rushed_spells = [], hero_score = 21, troop_score = 9 / 10, spell_score = 0,
            total_missing_hero_levels = 21, status = Severely_Rushed_Heroes\<rparr>
   \<and> spec_classify (219 / 10) = (Moderately_Rushed, True)"
proof -
  have tier: "3 \<le> py_get (townHallLevel example_player) 1"
    by (simp add: example_tier)
  have eval: "generate_rush_report example_player =
       Inr \<lparr>is_rushed = True, rush_score = 219 / 10, rush_percentage = 667 / 10,
            rushed_heroes = [\<lparr>item = ''Barbarian King'', current = 9, target = 30, missing = 21\<rparr>],
            rushed_troops = [\<lparr>item = ''Barbarian'', current = 3, target = 6, missing = 3\<rparr>],
            rushed_spells = [], hero_score = 21, troop_score = 9 / 10, spell_score = 0,
            total_missing_hero_levels = 21, status = Severely_Rushed_Heroes\<rparr>"
    by code_simp
  have cl: "spec_classify (219 / 10) = (Moderately_Rushed, True)"
    by (simp add: spec_classify_def)
  from hero_override [OF tier eval] tier eval cl show ?thesis by simp
qed

text \<open>
  Claim C4. For a player at Town Hall 2 or below (an absent level counts as 1) the report is
  the fixed New Account report: not rushed, score 0, percentage 0, empty lists.
\<close>

theorem new_account_short_circuit:
  assumes "py_get (townHallLevel p) 1 \<le> 2"
  shows "generate_rush_report p =
           Inr \<lparr>is_rushed = False, rush_score = 0, rush_percentage = 0,
                rushed_heroes = [], rushed_troops = [], rushed_spells = [],
                hero_score = 0, troop_score = 0, spell_score = 0,
                total_missing_hero_levels = 0, status = New_Account\<rparr>"
  using assms by (simp add: generate_rush_report_def)

theorem new_account_short_circuit_witness:
  "py_get (townHallLevel new_player) 1 \<le> 2
   \<and> (\<exists>r. generate_rush_report new_player = Inr r \<and> \<not> is_rushed r \<and> rush_score r = 0
          \<and> status r = New_Account
          \<and> rushed_heroes r = [] \<and> rushed_troops r = [] \<and> rushed_spells r = [])"
proof -
  have tier: "py_get (townHallLevel new_player) 1 \<le> 2"
    by (simp add: new_player_def py_get_def)
  from new_account_short_circuit [OF tier] tier show ?thesis by simp
qed

text \<open>
  The rounding is to a multiple of 1/10 that is at most 1/20 away.
\<close>

lemma py_round1_tenths: "\<exists>k::int. py_round1 x = of_int k / 10"
  by (simp add: py_round1_def Let_def)

lemma py_round1_close: "\<bar>py_round1 x - x\<bar> \<le> 1 / 20"
proof -
  define y where "y = x * 10"
  have lo: "of_int \<lfloor>y\<rfloor> \<le> y" and hi: "y < of_int \<lfloor>y\<rfloor> + 1"
    by linarith+
  have x: "x = y / 10" by (simp add: y_def)
  show ?thesis
    unfolding py_round1_def Let_def y_def [symmetric] x
    by (auto simp: abs_if field_simps) (use lo hi in linarith)+
qed



text \<open>The score of the report at any Town Hall level, and how it moves with one level.\<close>

lemma report_score_total:
  "\<exists>r. generate_rush_report p = Inr r \<and>
        rush_score r = (if py_get (townHallLevel p) 1 \<le> 2 then 0 else spec_rush_score p)"
proof (cases "py_get (townHallLevel p) 1 \<le> 2")
  case True
  then show ?thesis by (simp add: generate_rush_report_def)
next
  case False
  then have "3 \<le> py_get (townHallLevel p) 1" by simp
  then obtain rd where
    "generate_rush_report p =
       Inr (extra_penalty (determine_status
         (if spec_total_possible p = 0 then rd
          else rd\<lparr>rush_percentage :=
                 py_round1 (100 - of_int (spec_total_current p) / of_int (spec_total_possible p) * 100)\<rparr>)))"
    and "rush_score rd = spec_rush_score p"
    by (rule generate_rush_report_unfold)
  with False show ?thesis by simp
qed

lemma spec_missing_lower_level:
  "l \<le> py_get (level a) 0 \<Longrightarrow> spec_missing k tier a \<le> spec_missing k tier (a\<lparr>level := Some l\<rparr>)"
  by (auto simp: spec_missing_def spec_target_def py_get_def split: option.splits)

lemma sum_list_update_mono:
  fixes f :: "'a \<Rightarrow> rat"
  shows "i < length xs \<Longrightarrow> f (xs ! i) \<le> f y \<Longrightarrow>
         sum_list (map f xs) \<le> sum_list (map f (xs[i := y]))"
proof (induction xs arbitrary: i)
  case Nil
  then show ?case by simp
next
  case (Cons x xs)
  then show ?case by (cases i) auto
qed

lemma spec_category_score_lower_level:
  assumes "i < length xs" and "l \<le> py_get (level (xs ! i)) 0"
  shows "spec_category_score k tier xs
         \<le> spec_category_score k tier (xs[i := (xs ! i)\<lparr>level := Some l\<rparr>])"
  unfolding spec_category_score_def
proof (rule sum_list_update_mono [OF assms(1)])
  have "0 \<le> spec_weight k" by (simp add: spec_weight_def)
  moreover have "rat_of_int (spec_missing k tier (xs ! i))
      \<le> rat_of_int (spec_missing k tier ((xs ! i)\<lparr>level := Some l\<rparr>))"
    using spec_missing_lower_level [OF assms(2)] by simp
  ultimately show "rat_of_int (spec_missing k tier (xs ! i)) * spec_weight k
      \<le> rat_of_int (spec_missing k tier ((xs ! i)\<lparr>level := Some l\<rparr>)) * spec_weight k"
    by (rule mult_right_mono [rotated])
qed

text \<open>
  Claim C7. Lowering the level of one asset of a player, in any of the three lists and at
  any Town Hall level, with everything else unchanged, never lowers the \<open>rush_score\<close> of
  the report.
\<close>

theorem rush_score_monotone:
  assumes "i < length xs"
    and "l \<le> py_get (level (xs ! i)) 0"
    and "xs' = xs[i := (xs ! i)\<lparr>level := Some l\<rparr>]"
    and "(heroes p = Some xs \<and> p' = p\<lparr>heroes := Some xs'\<rparr>)
         \<or> (troops p = Some xs \<and> p' = p\<lparr>troops := Some xs'\<rparr>)
         \<or> (spells p = Some xs \<and> p' = p\<lparr>spells := Some xs'\<rparr>)"
  shows "\<exists>r r'. generate_rush_report p = Inr r \<and> generate_rush_report p' = Inr r'
                \<and> rush_score r \<le> rush_score r'"
proof -
  obtain r where r: "generate_rush_report p = Inr r"
    "rush_score r = (if py_get (townHallLevel p) 1 \<le> 2 then 0 else spec_rush_score p)"
    using report_score_total [of p] by blast
  obtain r' where r': "generate_rush_report p' = Inr r'"
    "rush_score r' = (if py_get (townHallLevel p') 1 \<le> 2 then 0 else spec_rush_score p')"
    using report_score_total [of p'] by blast
  have tier: "townHallLevel p' = townHallLevel p"
    using assms(4) by auto
  note mono = spec_category_score_lower_level [OF assms(1,2), folded assms(3)]
  have "spec_rush_score p \<le> spec_rush_score p'"
    using assms(4)
  proof (elim disjE conjE)
    assume "heroes p = Some xs" "p' = p\<lparr>heroes := Some xs'\<rparr>"
    then show ?thesis
      using mono [of "''hero''" "py_get (townHallLevel p) 1"]
      by (simp add: spec_rush_score_def Let_def py_get_def)
  next
    assume "troops p = Some xs" "p' = p\<lparr>troops := Some xs'\<rparr>"
    then show ?thesis
      using mono [of "''troop''" "py_get (townHallLevel p) 1"]
      by (simp add: spec_rush_score_def Let_def py_get_def)
  next
    assume "spells p = Some xs" "p' = p\<lparr>spells := Some xs'\<rparr>"
    then show ?thesis
      using mono [of "''spell''" "py_get (townHallLevel p) 1"]
      by (simp add: spec_rush_score_def Let_def py_get_def)
  qed
  then have "rush_score r \<le> rush_score r'"
    by (simp add: r(2) r'(2) tier)
  with r(1) r'(1) show ?thesis by blast
qed

theorem rush_score_monotone_witness:
  "(0::nat) < length [\<lparr>name = Some ''Barbarian King'', level = Some 9, village = Some ''home''\<rparr>]
   \<and> (5::int) \<le> py_get (level ([\<lparr>name = Some ''Barbarian King'', level = Some 9,
                                   village = Some ''home''\<rparr>] ! 0)) 0
   \<and> heroes example_player =
       Some [\<lparr>name = Some ''Barbarian King'', level = Some 9, village = Some ''home''\<rparr>]
   \<and> (\<exists>r r'. generate_rush_report example_player = Inr r
         \<and> generate_rush_report
              (example_player\<lparr>heroes :=
                 Some [\<lparr>name = Some ''Barbarian King'', level = Some 5,
                        village = Some ''home''\<rparr>]\<rparr>) = Inr r'
         \<and> rush_score r = 219 / 10 \<and> rush_score r' = 259 / 10 \<and> rush_score r \<le> rush_score r')"
proof -
  let ?xs = "[\<lparr>name = Some ''Barbarian King'', level = Some 9, village = Some ''home''\<rparr>]"
  let ?xs' = "[\<lparr>name = Some ''Barbarian King'', level = Some (5::int), village = Some ''home''\<rparr>]"
  have a: "(0::nat) < length ?xs" by simp
  have b: "(5::int) \<le> py_get (level (?xs ! 0)) 0" by (simp add: py_get_def)
  have c: "?xs' = ?xs[0 := (?xs ! 0)\<lparr>level := Some 5\<rparr>]" by simp
  have h: "heroes example_player = Some ?xs" by (simp add: example_player_def)
  have d: "(heroes example_player = Some ?xs \<and>
              example_player\<lparr>heroes := Some ?xs'\<rparr> = example_player\<lparr>heroes := Some ?xs'\<rparr>)
         \<or> (troops example_player = Some ?xs \<and>
              example_player\<lparr>heroes := Some ?xs'\<rparr> = example_player\<lparr>troops := Some ?xs'\<rparr>)
         \<or> (spells example_player = Some ?xs \<and>
              example_player\<lparr>heroes := Some ?xs'\<rparr> = example_player\<lparr>spells := Some ?xs'\<rparr>)"
    using h by simp
  have e1: "rush_score (case generate_rush_report example_player of Inr r \<Rightarrow> r) = 219 / 10"
    by code_simp
  have e2: "rush_score (case generate_rush_report (example_player\<lparr>heroes := Some ?xs'\<rparr>) of
              Inr r \<Rightarrow> r) = 259 / 10"
    by code_simp
  from rush_score_monotone [OF a b c d] obtain r r' where
    rr: "generate_rush_report example_player = Inr r"
      "generate_rush_report (example_player\<lparr>heroes := Some ?xs'\<rparr>) = Inr r'"
      "rush_score r \<le> rush_score r'"
    by blast
  from e1 rr(1) have s1: "rush_score r = 219 / 10" by simp
  from e2 rr(2) have s2: "rush_score r' = 259 / 10" by simp
  from a b h rr s1 s2 show ?thesis by blast
qed

section \<open>Properties of the historical statistics\<close>

text \<open>Recording attacks touches neither the war ids nor the name nor the level.\<close>

lemma record_attack_keeps:
  "war_ids (record_attack w wt now lv a p) = war_ids p"
  "player_name (record_attack w wt now lv a p) = player_name p"
  "current_th (record_attack w wt now lv a p) = current_th p"
  "wars_participated (record_attack w wt now lv a p) = wars_participated p"
  by (simp_all add: record_attack_def Let_def)

lemma record_attacks_keep:
  "war_ids (fold (record_attack w wt now lv) as p) = war_ids p"
  "player_name (fold (record_attack w wt now lv) as p) = player_name p"
  "current_th (fold (record_attack w wt now lv) as p) = current_th p"
  by (induction as arbitrary: p) (simp_all add: record_attack_keeps)

text \<open>
  A call for a war id that the record already has, and the record after any call: it has
  the war id, the name and at least the level of the call.
\<close>

lemma update_known_war:
  assumes "players doc t = Some r" and "w \<in> set (war_ids r)"
  shows "update_player_historical_stats doc t n lv ad wt w now =
           doc\<lparr>players := (players doc)
                 (t \<mapsto> r\<lparr>player_name := n, current_th := max (current_th r) lv\<rparr>)\<rparr>"
  using assms by (simp add: update_player_historical_stats_def Let_def)

lemma update_records_war:
  "\<exists>r. players (update_player_historical_stats doc t n lv ad wt w now) t = Some r
       \<and> w \<in> set (war_ids r) \<and> player_name r = n \<and> lv \<le> current_th r"
  by (cases "players doc t")
     (auto simp: update_player_historical_stats_def Let_def record_attacks_keep)

text \<open>
  Claim C6. When the war id is already in the player's list of war ids, the call changes
  nothing but the name and the Town Hall level of the record: no counter, no history entry,
  no war id. Hence after a first call, a second call for the same player and war id, with
  any attack data, war type and time, leaves the record as the first call left it up to
  that refresh, and leaves the whole document unchanged when name and level are the same.
\<close>

theorem repeated_war_is_noop:
  "(players doc t = Some r \<longrightarrow> w \<in> set (war_ids r) \<longrightarrow>
      update_player_historical_stats doc t n lv ad wt w now =
        doc\<lparr>players := (players doc)
              (t \<mapsto> r\<lparr>player_name := n, current_th := max (current_th r) lv\<rparr>)\<rparr>)
   \<and> (\<exists>r1. players (update_player_historical_stats doc t n lv ad wt w now) t = Some r1
          \<and> update_player_historical_stats
               (update_player_historical_stats doc t n lv ad wt w now) t n2 lv2 ad2 wt2 w now2 =
             (update_player_historical_stats doc t n lv ad wt w now)
               \<lparr>players := (players (update_player_historical_stats doc t n lv ad wt w now))
                  (t \<mapsto> r1\<lparr>player_name := n2, current_th := max (current_th r1) lv2\<rparr>)\<rparr>)
   \<and> update_player_historical_stats
        (update_player_historical_stats doc t n lv ad wt w now) t n lv ad2 wt2 w now2 =
      update_player_historical_stats doc t n lv ad wt w now"
proof (intro conjI impI)
  assume "players doc t = Some r" and "w \<in> set (war_ids r)"
  then show "update_player_historical_stats doc t n lv ad wt w now =
        doc\<lparr>players := (players doc)
              (t \<mapsto> r\<lparr>player_name := n, current_th := max (current_th r) lv\<rparr>)\<rparr>"
    by (rule update_known_war)
next
  let ?doc1 = "update_player_historical_stats doc t n lv ad wt w now"
  obtain r1 where r1: "players ?doc1 t = Some r1" "w \<in> set (war_ids r1)"
    "player_name r1 = n" "lv \<le> current_th r1"
    using update_records_war [of doc t n lv ad wt w now] by blast
  show "\<exists>r1. players ?doc1 t = Some r1
          \<and> update_player_historical_stats ?doc1 t n2 lv2 ad2 wt2 w now2 =
             ?doc1\<lparr>players := (players ?doc1)
                  (t \<mapsto> r1\<lparr>player_name := n2, current_th := max (current_th r1) lv2\<rparr>)\<rparr>"
    using r1(1) update_known_war [OF r1(1,2)] by blast
  have "r1\<lparr>player_name := n, current_th := max (current_th r1) lv\<rparr> = r1"
    using r1(3,4) by simp
  moreover have "(players ?doc1)(t \<mapsto> r1) = players ?doc1"
    using r1(1) by (rule map_upd_triv)
  ultimately show "update_player_historical_stats ?doc1 t n lv ad2 wt2 w now2 = ?doc1"
    using update_known_war [OF r1(1,2), of n lv ad2 wt2 now2] by simp
qed

lemma example_document_player: "players example_document ''#P1'' = Some example_history"
  by (simp add: example_document_def example_history_def update_player_historical_stats_def
      create_empty_data_structure_def record_attack_def example_attack_def py_get_def Let_def)

theorem repeated_war_is_noop_witness:
  "players example_document ''#P1'' = Some example_history
   \<and> ''W1'' \<in> set (war_ids example_history)
   \<and> update_player_historical_stats example_document ''#P1'' ''Ann'' 10
        \<lparr>attacks = Some [example_attack 2]\<rparr> ''regular_war'' ''W1'' ''t2'' =
      example_document\<lparr>players := (players example_document)(''#P1'' \<mapsto> example_history)\<rparr>"
proof -
  have a: "players example_document ''#P1'' = Some example_history"
    by (rule example_document_player)
  have b: "''W1'' \<in> set (war_ids example_history)"
    by (simp add: example_history_def)
  have c: "example_history\<lparr>player_name := ''Ann'',
             current_th := max (current_th example_history) 10\<rparr> = example_history"
    by (simp add: example_history_def)
  from repeated_war_is_noop [of example_document "''#P1''" example_history "''W1''" "''Ann''" 10
      "\<lparr>attacks = Some [example_attack 2]\<rparr>" "''regular_war''" "''t2''"] a b c
  show ?thesis by simp
qed

text \<open>
  The agreement of the counters is kept by a recorded attack, by the loop over the attacks,
  by a call, and by a run of calls.
\<close>

lemma record_attack_counters:
  "counters_agree p \<Longrightarrow> counters_agree (record_attack w wt now lv a p)"
  by (simp add: counters_agree_def record_attack_def Let_def)

lemma record_attacks_counters:
  "counters_agree p \<Longrightarrow> counters_agree (fold (record_attack w wt now lv) as p)"
  by (induction as arbitrary: p) (simp_all add: record_attack_counters)

lemma counters_agree_fields [simp]:
  "counters_agree (p\<lparr>player_name := n\<rparr>) = counters_agree p"
  "counters_agree (p\<lparr>current_th := c\<rparr>) = counters_agree p"
  "counters_agree (p\<lparr>war_ids := ws\<rparr>) = counters_agree p"
  "counters_agree (p\<lparr>wars_participated := k\<rparr>) = counters_agree p"
  by (simp_all add: counters_agree_def)

lemma update_counters:
  assumes "\<And>t r. players doc t = Some r \<Longrightarrow> counters_agree r"
    and "players (update_player_historical_stats doc t n lv ad wt w now) t' = Some r'"
  shows "counters_agree r'"
proof (cases "t' = t")
  case False
  with assms(2) have "players doc t' = Some r'"
    by (simp add: update_player_historical_stats_def Let_def split: if_splits)
  then show ?thesis by (rule assms(1))
next
  case True
  show ?thesis
  proof (cases "players doc t")
    case None
    let ?fresh = "\<lparr>player_name = n, tag = t, current_th = max lv lv, total_attacks = 0,
        total_stars = 0, total_destruction = 0, three_stars = 0, two_stars = 0, one_star = 0,
        zero_stars = 0, wars_participated = 0 + 1, player_cwl_seasons = 0,
        attacks_history = [], war_ids = [] @ [w]\<rparr>"
    have "counters_agree ?fresh"
      by (simp add: counters_agree_def)
    then have "counters_agree (fold (record_attack w wt now lv) (py_get (attacks ad) []) ?fresh)"
      by (rule record_attacks_counters)
    moreover have "r' = fold (record_attack w wt now lv) (py_get (attacks ad) []) ?fresh"
      using assms(2) True None by (simp add: update_player_historical_stats_def Let_def)
    ultimately show ?thesis by simp
  next
    case (Some r)
    then have "counters_agree r" by (rule assms(1))
    with assms(2) True Some show ?thesis
      by (auto simp: update_player_historical_stats_def Let_def split: if_splits
          intro!: record_attacks_counters)
  qed
qed

lemma run_updates_counters:
  assumes "\<And>t r. players doc t = Some r \<Longrightarrow> counters_agree r"
    and "players (run_updates calls doc) t = Some r"
  shows "counters_agree r"
  using assms
proof (induction calls arbitrary: doc)
  case Nil
  then show ?case by (simp add: run_updates_def)
next
  case (Cons c calls)
  obtain pt pn lv ad wt w now where c: "c = (pt, pn, lv, ad, wt, w, now)"
    by (metis prod_cases3)
  let ?doc = "update_player_historical_stats doc pt pn lv ad wt w now"
  have step: "run_updates (c # calls) doc = run_updates calls ?doc"
    by (simp add: run_updates_def c)
  have "\<And>t r. players ?doc t = Some r \<Longrightarrow> counters_agree r"
    using Cons.prems(1) by (rule update_counters)
  then show ?case
    using Cons.prems(2) unfolding step by (rule Cons.IH)
qed

text \<open>
  Claim C10. In every document reached from the empty one by calls of
  \<^verbatim>\<open>update_player_historical_stats\<close>, every player's record has
  total_attacks = three_stars + two_stars + one_star + zero_stars = length of
  attacks_history. Each recorded attack appends one history entry, adds one to
  total_attacks and adds one to exactly one star counter: the one of its stars, or
  zero_stars when the stars are not 1, 2 or 3.
\<close>

theorem history_counters_agree:
  "(players (run_updates calls create_empty_data_structure) t = Some r \<longrightarrow>
      total_attacks r = three_stars r + two_stars r + one_star r + zero_stars r
      \<and> total_attacks r = int (length (attacks_history r)))
   \<and> length (attacks_history (record_attack w wt now lv a p))
       = length (attacks_history p) + 1
   \<and> total_attacks (record_attack w wt now lv a p) = total_attacks p + 1
   \<and> three_stars (record_attack w wt now lv a p)
       = three_stars p + (if py_get (stars a) 0 = 3 then 1 else 0)
   \<and> two_stars (record_attack w wt now lv a p)
       = two_stars p + (if py_get (stars a) 0 = 2 then 1 else 0)
   \<and> one_star (record_attack w wt now lv a p)
       = one_star p + (if py_get (stars a) 0 = 1 then 1 else 0)
   \<and> zero_stars (record_attack w wt now lv a p)
       = zero_stars p + (if py_get (stars a) 0 \<in> {1, 2, 3} then 0 else 1)"
proof -
  have "counters_agree r" if "players (run_updates calls create_empty_data_structure) t = Some r"
    using _ that by (rule run_updates_counters) (simp add: create_empty_data_structure_def)
  then have inv: "players (run_updates calls create_empty_data_structure) t = Some r \<longrightarrow>
      total_attacks r = three_stars r + two_stars r + one_star r + zero_stars r
      \<and> total_attacks r = int (length (attacks_history r))"
    unfolding counters_agree_def by blast
  have step: "length (attacks_history (record_attack w wt now lv a p))
       = length (attacks_history p) + 1
   \<and> total_attacks (record_attack w wt now lv a p) = total_attacks p + 1
   \<and> three_stars (record_attack w wt now lv a p)
       = three_stars p + (if py_get (stars a) 0 = 3 then 1 else 0)
   \<and> two_stars (record_attack w wt now lv a p)
       = two_stars p + (if py_get (stars a) 0 = 2 then 1 else 0)
   \<and> one_star (record_attack w wt now lv a p)
       = one_star p + (if py_get (stars a) 0 = 1 then 1 else 0)
   \<and> zero_stars (record_attack w wt now lv a p)
       = zero_stars p + (if py_get (stars a) 0 \<in> {1, 2, 3} then 0 else 1)"
    by (simp add: record_attack_def Let_def)
  from inv step show ?thesis by (rule conjI)
qed

lemma example_run:
  "players (run_updates example_calls create_empty_data_structure) ''#P1'' =
     Some example_final_history"
  by (simp add: run_updates_def example_calls_def example_history_def example_final_history_def
      update_player_historical_stats_def
      create_empty_data_structure_def record_attack_def example_attack_def py_get_def Let_def)

theorem history_counters_agree_witness:
  "players (run_updates example_calls create_empty_data_structure) ''#P1'' =
     Some example_final_history
   \<and> total_attacks example_final_history =
       three_stars example_final_history + two_stars example_final_history
       + one_star example_final_history + zero_stars example_final_history
   \<and> total_attacks example_final_history = int (length (attacks_history example_final_history))
   \<and> total_attacks example_final_history = 4
   \<and> zero_stars example_final_history = 2"
proof -
  have run: "players (run_updates example_calls create_empty_data_structure) ''#P1'' =
     Some example_final_history"
    by (rule example_run)
  have vals: "total_attacks example_final_history = 4" "zero_stars example_final_history = 2"
    by (simp_all add: example_final_history_def example_history_def)
  from history_counters_agree [of example_calls "''#P1''" example_final_history] run vals
  show ?thesis by blast
qed

section \<open>Properties of the war attack analysis\<close>

text \<open>An attack adds one to \<open>attacks_used\<close> and leaves \<open>missed_attacks\<close> alone.\<close>

lemma analyze_attack_counts:
  "attacks_used (analyze_attack L lv a e) = attacks_used e + 1"
  "missed_attacks (analyze_attack L lv a e) = missed_attacks e"
  by (simp_all add: analyze_attack_def Let_def split: prod.splits)

lemma analyze_attacks_counts:
  "attacks_used (fold (analyze_attack L lv) as e) = attacks_used e + int (length as)"
  "missed_attacks (fold (analyze_attack L lv) as e) = missed_attacks e"
  by (induction as arbitrary: e) (simp_all add: analyze_attack_counts)

text \<open>A member with a tag that is not yet a key gets a new entry at the end.\<close>

lemma update_fresh_key:
  "map_of ps k = None \<Longrightarrow> AList.update k v ps = ps @ [(k, v)]"
  by (induction ps) (auto split: if_splits)

lemma map_entry_last_key:
  "map_of ps k = None \<Longrightarrow> AList.map_entry k f (ps @ [(k, v)]) = ps @ [(k, f v)]"
  by (induction ps) (auto split: if_splits)

lemma analyze_member_fresh:
  assumes "map_of ps (py_get (member_tag m) '''') = None"
  shows "\<exists>e. analyze_member L m ps = ps @ [(py_get (member_tag m) '''', e)]
            \<and> attacks_used e = int (length (py_get (member_attacks m) []))
            \<and> missed_attacks e = (if py_get (member_attacks m) [] = [] then 2 else 0)"
  using assms
  by (simp add: analyze_member_def Let_def update_fresh_key map_entry_last_key
      analyze_attacks_counts)

lemma members_loop_distinct:
  assumes "distinct (map (\<lambda>m. py_get (member_tag m) '''') ms)"
    and "\<forall>m\<in>set ms. map_of ps (py_get (member_tag m) '''') = None"
  shows "(\<forall>m\<in>set ms. \<exists>e.
            map_of (fold (analyze_member L) ms ps) (py_get (member_tag m) '''') = Some e
            \<and> attacks_used e = int (length (py_get (member_attacks m) []))
            \<and> missed_attacks e = (if py_get (member_attacks m) [] = [] then 2 else 0))
         \<and> (\<forall>k v. map_of ps k = Some v \<longrightarrow> map_of (fold (analyze_member L) ms ps) k = Some v)"
  using assms
proof (induction ms arbitrary: ps)
  case Nil
  then show ?case by simp
next
  case (Cons m ms)
  let ?k = "py_get (member_tag m) ''''"
  from Cons.prems(2) have fresh: "map_of ps ?k = None" by simp
  from analyze_member_fresh [OF fresh, of L] obtain e where
    e: "analyze_member L m ps = ps @ [(?k, e)]"
      "attacks_used e = int (length (py_get (member_attacks m) []))"
      "missed_attacks e = (if py_get (member_attacks m) [] = [] then 2 else 0)"
    by blast
  have d: "distinct (map (\<lambda>m. py_get (member_tag m) '''') ms)"
    using Cons.prems(1) by simp
  have f: "\<forall>m'\<in>set ms. map_of (ps @ [(?k, e)]) (py_get (member_tag m') '''') = None"
  proof
    fix m' assume m': "m' \<in> set ms"
    then have "py_get (member_tag m') '''' \<in> (\<lambda>m. py_get (member_tag m) '''') ` set ms"
      by (rule imageI)
    moreover have "?k \<notin> (\<lambda>m. py_get (member_tag m) '''') ` set ms"
      using Cons.prems(1) by simp
    ultimately have "py_get (member_tag m') '''' \<noteq> ?k"
      by metis
    moreover have "map_of ps (py_get (member_tag m') '''') = None"
      using Cons.prems(2) m' by simp
    ultimately show "map_of (ps @ [(?k, e)]) (py_get (member_tag m') '''') = None"
      by (simp add: map_add_def)
  qed
  note IH = Cons.IH [OF d f]
  have here: "map_of (ps @ [(?k, e)]) ?k = Some e"
    using fresh by (simp add: map_add_def)
  have old: "map_of (ps @ [(?k, e)]) k = Some v" if "map_of ps k = Some v" for k v
    using that by (simp add: map_add_def)
  show ?case
    using IH e here old by (simp add: e(1))
qed

text \<open>
  With distinct tags in the roster, every member has an entry under its tag; the entry counts
  the member's attacks in \<open>attacks_used\<close>, and its \<open>missed_attacks\<close> is 2 for a member
  without attacks and 0 otherwise.
\<close>

lemma roster_member_stats:
  assumes "distinct (map (\<lambda>m. py_get (member_tag m) '''')
             (py_get (members (py_get (clan w) empty_side)) []))"
    and "m \<in> set (py_get (members (py_get (clan w) empty_side)) [])"
  shows "\<exists>e. map_of (analyze_war_attacks w) (py_get (member_tag m) '''') = Some e
            \<and> attacks_used e = int (length (py_get (member_attacks m) []))
            \<and> missed_attacks e = (if py_get (member_attacks m) [] = [] then 2 else 0)"
proof -
  let ?ms = "py_get (members (py_get (clan w) empty_side)) []"
  let ?sorted = "sort_key (\<lambda>x. py_get (mapPosition x) 0) ?ms"
  have "distinct (map (\<lambda>m. py_get (member_tag m) '''') ?sorted)"
    using assms(1) by (simp add: distinct_map)
  moreover have "\<forall>m\<in>set ?sorted. map_of [] (py_get (member_tag m) '''') = None"
    by simp
  ultimately have "\<forall>m\<in>set ?sorted. \<exists>e.
      map_of (fold (analyze_member L) ?sorted []) (py_get (member_tag m) '''') = Some e
      \<and> attacks_used e = int (length (py_get (member_attacks m) []))
      \<and> missed_attacks e = (if py_get (member_attacks m) [] = [] then 2 else 0)" for L
    using members_loop_distinct by blast
  moreover have "m \<in> set ?sorted" using assms(2) by simp
  moreover have "?ms \<noteq> []" using assms(2) by auto
  ultimately show ?thesis
    by (simp add: analyze_war_attacks_def Let_def)
qed

text \<open>
  Claim C8. Every member of the roster is in the returned mapping, a member without attacks
  with \<open>attacks_used = 0\<close> (\<open>roster_member_stats\<close>, for a roster of distinct tags). The
  missing attacks of a member are 2 - attacks_used in the list \<open>missed\<close> of the printed
  summary, but not in the returned mapping: its \<open>missed_attacks\<close> is set to 2 for a member
  without attacks and stays 0 for every other member. In the example Ann used one attack;
  the summary lists her with 1 missing attack and the mapping gives her 0.
\<close>

theorem missed_attacks_of_single_attack:
  "map (\<lambda>(t, p). (t, attacks_used p, missed_attacks p)) (analyze_war_attacks example_war) =
     [(''#A'', 1, 0), (''#B'', 0, 2), (''#C'', 2, 0)]
   \<and> missed (analyze_war_attacks example_war) = [(''Ann'', 1), (''Bob'', 2)]"
proof
  show "map (\<lambda>(t, p). (t, attacks_used p, missed_attacks p)) (analyze_war_attacks example_war) =
     [(''#A'', 1, 0), (''#B'', 0, 2), (''#C'', 2, 0)]"
    by code_simp
  show "missed (analyze_war_attacks example_war) = [(''Ann'', 1), (''Bob'', 2)]"
    by code_simp
qed

section \<open>Properties of the Clan War League analysis\<close>

text \<open>
  Two runs of the loops that differ only in the value of the variable \<^verbatim>\<open>state\<close> at the
  start: every war of the clan overwrites the variable, so the runs agree on the document, on
  the aggregate and on the number of wars, and on the variable as soon as one war was counted.
\<close>

lemma analyze_cwl_war_state:
  assumes "analyze_cwl_war W tg se now rn wt (d, a, n, s1) = (d1, a1, n1, s1')"
    and "analyze_cwl_war W tg se now rn wt (d, a, n, s2) = (d2, a2, n2, s2')"
  shows "d1 = d2 \<and> a1 = a2 \<and> n1 = n2 \<and>
         ((n1 = n \<and> s1' = s1 \<and> s2' = s2) \<or> (n1 = n + 1 \<and> s1' = s2'))"
  using assms
  by (auto simp: analyze_cwl_war_def Let_def split: if_splits option.splits prod.splits)

lemma war_tags_loop_state:
  assumes "fold (analyze_cwl_war W tg se now rn) wts (d, a, n, s1) = (d1, a1, n1, s1')"
    and "fold (analyze_cwl_war W tg se now rn) wts (d, a, n, s2) = (d2, a2, n2, s2')"
    and "n0 \<le> n" and "n0 < n \<longrightarrow> s1 = s2"
  shows "d1 = d2 \<and> a1 = a2 \<and> n1 = n2 \<and> n0 \<le> n1 \<and> (n0 < n1 \<longrightarrow> s1' = s2')"
  using assms
proof (induction wts arbitrary: d a n s1 s2)
  case Nil
  then show ?case by auto
next
  case (Cons wt wts)
  obtain e b m t1 where x1: "analyze_cwl_war W tg se now rn wt (d, a, n, s1) = (e, b, m, t1)"
    by (metis prod_cases4)
  obtain e' b' m' t2 where x2: "analyze_cwl_war W tg se now rn wt (d, a, n, s2) = (e', b', m', t2)"
    by (metis prod_cases4)
  from analyze_cwl_war_state [OF x1 x2]
  have eq: "e = e'" "b = b'" "m = m'"
    and st: "(m = n \<and> t1 = s1 \<and> t2 = s2) \<or> (m = n + 1 \<and> t1 = t2)"
    by auto
  have r1: "fold (analyze_cwl_war W tg se now rn) wts (e, b, m, t1) = (d1, a1, n1, s1')"
    using Cons.prems(1) x1 by simp
  have r2: "fold (analyze_cwl_war W tg se now rn) wts (e, b, m, t2) = (d2, a2, n2, s2')"
    using Cons.prems(2) x2 eq by simp
  have "n0 \<le> m" "n0 < m \<longrightarrow> t1 = t2"
    using st Cons.prems(3,4) by auto
  with r1 r2 show ?case by (rule Cons.IH)
qed

lemma rounds_loop_state:
  assumes "fold (\<lambda>(rn, rd). fold (analyze_cwl_war W tg se now rn) (py_get (warTags rd) []))
             rs (d, a, n, s1) = (d1, a1, n1, s1')"
    and "fold (\<lambda>(rn, rd). fold (analyze_cwl_war W tg se now rn) (py_get (warTags rd) []))
             rs (d, a, n, s2) = (d2, a2, n2, s2')"
    and "n0 \<le> n" and "n0 < n \<longrightarrow> s1 = s2"
  shows "d1 = d2 \<and> a1 = a2 \<and> n1 = n2 \<and> n0 \<le> n1 \<and> (n0 < n1 \<longrightarrow> s1' = s2')"
  using assms
proof (induction rs arbitrary: d a n s1 s2)
  case Nil
  then show ?case by auto
next
  case (Cons r rs)
  obtain rn rd where r: "r = (rn, rd)" by (cases r)
  let ?inner = "fold (analyze_cwl_war W tg se now rn) (py_get (warTags rd) [])"
  obtain e b m t1 where x1: "?inner (d, a, n, s1) = (e, b, m, t1)"
    by (metis prod_cases4)
  obtain e' b' m' t2 where x2: "?inner (d, a, n, s2) = (e', b', m', t2)"
    by (metis prod_cases4)
  from war_tags_loop_state [OF x1 x2 Cons.prems(3,4)]
  have eq: "e = e'" "b = b'" "m = m'" and st: "n0 \<le> m" "n0 < m \<longrightarrow> t1 = t2"
    by auto
  have r1: "fold (\<lambda>(rn, rd). fold (analyze_cwl_war W tg se now rn) (py_get (warTags rd) []))
             rs (e, b, m, t1) = (d1, a1, n1, s1')"
    using Cons.prems(1) x1 r by simp
  have r2: "fold (\<lambda>(rn, rd). fold (analyze_cwl_war W tg se now rn) (py_get (warTags rd) []))
             rs (e, b, m, t2) = (d2, a2, n2, s2')"
    using Cons.prems(2) x2 eq r by simp
  from r1 r2 st show ?case by (rule Cons.IH)
qed

text \<open>The document that \<^verbatim>\<open>analyze_cwl\<close> returns does not depend on the state of the group.\<close>

lemma analyze_cwl_ignores_group_state:
  "analyze_cwl (\<lambda>t. Some (g\<lparr>group_state := s1\<rparr>)) W now tg doc =
   analyze_cwl (\<lambda>t. Some (g\<lparr>group_state := s2\<rparr>)) W now tg doc"
proof -
  let ?loop = "fold (\<lambda>(rn, rd).
      fold (analyze_cwl_war W tg (py_get (season g) ''N/A'') now rn) (py_get (warTags rd) []))
      (zip [1 ..< Suc (length (py_get (rounds g) []))] (py_get (rounds g) []))"
  obtain d1 a1 n1 t1 where x1: "?loop (doc, [], 0, py_get s1 ''unknown'') = (d1, a1, n1, t1)"
    by (metis prod_cases4)
  obtain d2 a2 n2 t2 where x2: "?loop (doc, [], 0, py_get s2 ''unknown'') = (d2, a2, n2, t2)"
    by (metis prod_cases4)
  have "d1 = d2 \<and> a1 = a2 \<and> n1 = n2 \<and> 0 \<le> n1 \<and> (0 < n1 \<longrightarrow> t1 = t2)"
    using x1 x2 by (rule rounds_loop_state) simp_all
  then show ?thesis
    using x1 x2 by (simp add: analyze_cwl_def Let_def)
qed

text \<open>
  Claim C9. The season record is written with \<open>complete = (state = ended)\<close>, where
  \<^verbatim>\<open>state\<close> is by then the state of the last war of the clan that the loop fetched, not the
  state of the league group. With a group in state \<^verbatim>\<open>inWar\<close> and a war whose state reads
  \<^verbatim>\<open>ended\<close> the record is written complete; with a group in state \<^verbatim>\<open>ended\<close> and a war in
  state \<^verbatim>\<open>warEnded\<close> it is written not complete.
\<close>

theorem complete_flag_from_war_state:
  "cwl_seasons
     (analyze_cwl (\<lambda>t. Some (example_group ''inWar'')) (\<lambda>t. Some (example_cwl_war ''ended''))
        ''now'' CLAN_TAG create_empty_data_structure) ''cwl_2025-01'' =
     Some \<lparr>season_name = ''2025-01'', season_wars_analyzed = 1, season_total_attacks = 0,
           season_total_stars = 0, recorded_date = ''now'', complete = True\<rparr>
   \<and> cwl_seasons
       (analyze_cwl (\<lambda>t. Some (example_group ''ended''))
          (\<lambda>t. Some (example_cwl_war ''warEnded''))
          ''now'' CLAN_TAG create_empty_data_structure) ''cwl_2025-01'' =
       Some \<lparr>season_name = ''2025-01'', season_wars_analyzed = 1, season_total_attacks = 1,
             season_total_stars = 2, recorded_date = ''now'', complete = False\<rparr>"
proof
  show "cwl_seasons
     (analyze_cwl (\<lambda>t. Some (example_group ''inWar'')) (\<lambda>t. Some (example_cwl_war ''ended''))
        ''now'' CLAN_TAG create_empty_data_structure) ''cwl_2025-01'' =
     Some \<lparr>season_name = ''2025-01'', season_wars_analyzed = 1, season_total_attacks = 0,
           season_total_stars = 0, recorded_date = ''now'', complete = True\<rparr>"
    by code_simp
  show "cwl_seasons
       (analyze_cwl (\<lambda>t. Some (example_group ''ended''))
          (\<lambda>t. Some (example_cwl_war ''warEnded''))
          ''now'' CLAN_TAG create_empty_data_structure) ''cwl_2025-01'' =
       Some \<lparr>season_name = ''2025-01'', season_wars_analyzed = 1, season_total_attacks = 1,
             season_total_stars = 2, recorded_date = ''now'', complete = False\<rparr>"
    by code_simp
qed


end
